theory Spec2Isabelle
  imports Complex_Main
begin

section \<open>Strings\<close>

text \<open>
  JavaScript strings are modelled as \<^typ>\<open>string\<close>; every character is read as one
  ASCII code unit. \<open>toLowerCase\<close> and \<open>trim\<close> are the two string builtins the
  component relies on; on ASCII text they act as below (code units beyond ASCII are
  outside the model).
\<close>

definition toLowerChar :: "char \<Rightarrow> char" where
  "toLowerChar c =
     (case map_of (zip ''ABCDEFGHIJKLMNOPQRSTUVWXYZ'' ''abcdefghijklmnopqrstuvwxyz'') c of
        Some l \<Rightarrow> l
      | None \<Rightarrow> c)"

definition toLowerCase :: "string \<Rightarrow> string" where
  "toLowerCase s = map toLowerChar s"

definition isWhiteSpace :: "char \<Rightarrow> bool" where
  "isWhiteSpace c =
     (c = CHR '' '' \<or> c = CHR 0x09 \<or> c = CHR 0x0A \<or> c = CHR 0x0B \<or> c = CHR 0x0C \<or> c = CHR 0x0D)"

definition trim :: "string \<Rightarrow> string" where
  "trim s = rev (dropWhile isWhiteSpace (rev (dropWhile isWhiteSpace s)))"

section \<open>Facet buckets (KalifindSearch.tsx, lines 114-186)\<close>

text \<open>
  A bucket key is a string, a number or a boolean; \<open>KOther\<close> stands for any other
  run-time value (the branch none of the \<open>typeof\<close> tests takes). Numeric keys and
  document counts are integers.
\<close>

datatype bucket_key = KStr string | KNum int | KBool bool | KOther

record FacetBucket =
  key :: bucket_key
  key_as_string :: "string option"
  doc_count :: int

text \<open>
  The test \<open>normalized === '1' || normalized === 'true'\<close> followed by
  \<open>normalized === '0' || normalized === 'false'\<close>, which
  \<open>resolveBooleanFacetValue\<close> applies first to a string key and then to
  \<open>key_as_string\<close>.
\<close>

definition booleanOfString :: "string \<Rightarrow> bool option" where
  "booleanOfString s =
     (let normalized = toLowerCase s in
      if normalized = ''1'' \<or> normalized = ''true'' then Some True
      else if normalized = ''0'' \<or> normalized = ''false'' then Some False
      else None)"

text \<open>The part of \<open>resolveBooleanFacetValue\<close> that looks at \<open>bucket.key\<close> only.\<close>

fun booleanOfKey :: "bucket_key \<Rightarrow> bool option" where
  "booleanOfKey (KNum n) = (if n = 1 then Some True else if n = 0 then Some False else None)"
| "booleanOfKey (KStr s) = booleanOfString s"
| "booleanOfKey (KBool v) = Some v"
| "booleanOfKey KOther = None"

definition resolveBooleanFacetValue :: "FacetBucket \<Rightarrow> bool option" where
  "resolveBooleanFacetValue bucket =
     (case booleanOfKey (key bucket) of
        Some v \<Rightarrow> Some v
      | None \<Rightarrow>
          (case key_as_string bucket of
             Some t \<Rightarrow> (if t \<noteq> [] then booleanOfString t else None)
           | None \<Rightarrow> None))"

text \<open>
  The \<open>forEach\<close> loops of \<open>fetchGlobalFacets\<close> over the \<open>featured\<close> and
  \<open>insale\<close> buckets (lines 897-906 and 915-924): the pair is
  (count for \<open>true\<close>, count for \<open>false\<close>), both starting at 0.
\<close>

definition countBooleanBucket :: "int \<times> int \<Rightarrow> FacetBucket \<Rightarrow> int \<times> int" where
  "countBooleanBucket acc bucket =
     (case resolveBooleanFacetValue bucket of
        Some True \<Rightarrow> (doc_count bucket, snd acc)
      | Some False \<Rightarrow> (fst acc, doc_count bucket)
      | None \<Rightarrow> acc)"

definition booleanFacetCounts :: "FacetBucket list \<Rightarrow> int \<times> int" where
  "booleanFacetCounts buckets = foldl countBooleanBucket (0, 0) buckets"

section \<open>Recent searches (lines 683-709, 1904-1915, 2015-2021)\<close>

definition addToRecentSearches :: "string \<Rightarrow> string list \<Rightarrow> string list" where
  "addToRecentSearches query recentSearches =
     (if trim query \<noteq> [] \<and> trim query \<notin> set recentSearches
      then take 10 (trim query # filter (\<lambda>item. item \<noteq> trim query) recentSearches)
      else recentSearches)"

definition handleRemoveRecentSearch :: "string \<Rightarrow> string list \<Rightarrow> string list" where
  "handleRemoveRecentSearch search recentSearches = filter (\<lambda>item. item \<noteq> search) recentSearches"

definition handleClearRecentSearches :: "string list \<Rightarrow> string list" where
  "handleClearRecentSearches recentSearches = []"

text \<open>
  The persistence effect: the stored item under the key \<open>recentSearches\<close> after the
  list changed. \<open>None\<close> is the removed item; the JSON text of a string array is
  identified with the array.
\<close>

definition saveRecentSearches :: "string list \<Rightarrow> string list option" where
  "saveRecentSearches recentSearches =
     (if length recentSearches > 0 then Some recentSearches else None)"

text \<open>Recording one query after the other, each on the list the previous one left.\<close>

fun recordSearches :: "string list \<Rightarrow> string list \<Rightarrow> string list" where
  "recordSearches recentSearches [] = recentSearches"
| "recordSearches recentSearches (query # queries) =
     recordSearches (addToRecentSearches query recentSearches) queries"

section \<open>Numbers as text\<close>

text \<open>\<open>String(n)\<close> and template interpolation of a whole number.\<close>

fun showNat :: "nat \<Rightarrow> string" where
  "showNat n =
     (if n < 10 then [''0123456789'' ! n]
      else showNat (n div 10) @ [''0123456789'' ! (n mod 10)])"

declare showNat.simps [simp del]

definition showInt :: "int \<Rightarrow> string" where
  "showInt i = (if i < 0 then CHR ''-'' # showNat (nat (- i)) else showNat (nat i))"

text \<open>\<open>Array.prototype.join\<close> on strings.\<close>

fun joinWith :: "string \<Rightarrow> string list \<Rightarrow> string" where
  "joinWith sep [] = []"
| "joinWith sep [x] = x"
| "joinWith sep (x # y # ys) = x @ sep @ joinWith sep (y # ys)"

text \<open>\<open>s.replace(' ', '-')\<close>: a string pattern replaces the first occurrence only.\<close>

fun replaceFirstSpace :: "string \<Rightarrow> string" where
  "replaceFirstSpace [] = []"
| "replaceFirstSpace (c # cs) = (if c = CHR '' '' then CHR ''-'' # cs else c # replaceFirstSpace cs)"

section \<open>Extracting buckets (lines 114-161)\<close>

text \<open>
  What the backend sends for one facet, before it is typed. \<open>NoFacet\<close> is a missing or
  non-object facet, \<open>FacetObject None\<close> an object whose \<open>buckets\<close> is not an array,
  \<open>NonObject\<close> an array entry that is not an object. In a raw bucket each field may be
  absent (\<open>None\<close>); a present \<open>doc_count\<close> is a finite number.
\<close>

datatype raw_bucket = NonObject | RawBucket "bucket_key option" "string option" "int option"

datatype raw_facet = NoFacet | FacetObject "raw_bucket list option"

fun typedBucket :: "raw_bucket \<Rightarrow> FacetBucket option" where
  "typedBucket NonObject = None"
| "typedBucket (RawBucket k kas dc) =
     Some \<lparr>key = (case k of Some v \<Rightarrow> v | None \<Rightarrow> KStr (case kas of Some t \<Rightarrow> t | None \<Rightarrow> [])),
           key_as_string = kas,
           doc_count = (case dc of Some n \<Rightarrow> n | None \<Rightarrow> 0)\<rparr>"

fun extractFacetBuckets :: "raw_facet \<Rightarrow> FacetBucket list" where
  "extractFacetBuckets NoFacet = []"
| "extractFacetBuckets (FacetObject None) = []"
| "extractFacetBuckets (FacetObject (Some maybeBuckets)) = List.map_filter typedBucket maybeBuckets"

definition getFacetBucketKey :: "FacetBucket \<Rightarrow> string" where
  "getFacetBucketKey bucket =
     (case key bucket of
        KStr s \<Rightarrow> s
      | KNum n \<Rightarrow>
          (case key_as_string bucket of
             Some t \<Rightarrow> (if t \<noteq> [] then t else showInt n)
           | None \<Rightarrow> showInt n)
      | KBool v \<Rightarrow>
          (case key_as_string bucket of
             Some t \<Rightarrow> (if t \<noteq> [] then t else (if v then ''true'' else ''false''))
           | None \<Rightarrow> (if v then ''true'' else ''false''))
      | KOther \<Rightarrow> (case key_as_string bucket of Some t \<Rightarrow> t | None \<Rightarrow> []))"

text \<open>
  The loop that fills a count object for the category, brand and tag facets
  (\<open>if (!key) return; counts[key] = bucket.doc_count\<close>), starting from \<open>{}\<close>.
\<close>

definition putBucketCount :: "(string \<rightharpoonup> int) \<Rightarrow> FacetBucket \<Rightarrow> (string \<rightharpoonup> int)" where
  "putBucketCount counts bucket =
     (let k = getFacetBucketKey bucket in
      if k = [] then counts else counts(k \<mapsto> doc_count bucket))"

definition bucketCounts :: "FacetBucket list \<Rightarrow> (string \<rightharpoonup> int)" where
  "bucketCounts buckets = foldl putBucketCount Map.empty buckets"

section \<open>Products, filters, requests and responses\<close>

text \<open>
  A price field of a product as the code tests it: absent (\<open>null\<close> or \<open>undefined\<close>),
  a number, or some other value.
\<close>

datatype price_field = NoPrice | PriceNumber real | PriceOther

record Product =
  productId :: string
  storeUrl :: "string option"
  currentPrice :: price_field
  originalPrice :: price_field
  price :: price_field

record FilterState =
  categories :: "string list"
  brands :: "string list"
  colors :: "string list"
  sizes :: "string list"
  tags :: "string list"
  stockStatus :: "string list"
  featuredProducts :: "string list"
  saleStatus :: "string list"
  priceRange :: "real \<times> real"

text \<open>
  The argument of \<open>searchService.searchProducts\<close>; field \<open>x\<close> of the source is
  \<open>paramX\<close> here. \<open>None\<close> is an absent (\<open>undefined\<close>) parameter.
\<close>

record SearchParams =
  paramQ :: string
  paramStoreUrl :: string
  paramPage :: int
  paramLimit :: int
  paramCategories :: "string list option"
  paramColors :: "string list option"
  paramSizes :: "string list option"
  paramBrands :: "string list option"
  paramTags :: "string list option"
  paramStockStatus :: "string list option"
  paramPriceRange :: "(real \<times> real) option"
  paramInsale :: "string option"
  paramFeatured :: "string option"
  paramSort :: "string option"

record Facets =
  categoryFacet :: raw_facet
  brandFacet :: raw_facet
  colorFacet :: raw_facet
  sizeFacet :: raw_facet
  tagFacet :: raw_facet
  instockFacet :: raw_facet
  featuredFacet :: raw_facet
  insaleFacet :: raw_facet
  priceStatsMax :: "real option"

record SearchResponse =
  products :: "Product list"
  total :: "int option"
  hasMore :: "bool option"
  message :: "string option"
  showingRecommended :: "bool option"
  facets :: "Facets option"

text \<open>
  What \<open>searchService.searchProducts\<close> resolves to, by the two run-time tests the
  component applies: \<open>isSearchResponse(result)\<close> and \<open>Array.isArray(result)\<close>.
  \<open>Unexpected\<close> is any other non-null value.
\<close>

datatype api_result = IsSearchResponse SearchResponse | ProductArray "Product list" | Unexpected

datatype js_error = AbortError | OtherError

datatype settled = Fulfilled api_result | Rejected js_error

text \<open>The locals \<open>products, total, hasMore, message, showingRecommended\<close> of \<open>fetchProducts\<close>.\<close>

record ResultPage =
  pageProducts :: "Product list"
  pageTotal :: int
  pageHasMore :: bool
  pageMessage :: "string option"
  pageShowingRecommended :: bool

section \<open>Component state\<close>

text \<open>
  The state variables and refs of \<open>KalifindSearch\<close> that searching reads or writes,
  under their names in the source (\<open>searchRequestId\<close>, \<open>lastSearchedQuery\<close> and
  \<open>lastSearchedFilters\<close> are the \<open>.current\<close> of the refs of those names;
  \<open>searchQuery\<close> and \<open>hasSearched\<close> are the props the parent holds; \<open>filters\<close> is
  the state of the \<open>useFilters\<close> hook). View-only state (autocomplete, currency, store
  type, the lists of available facet values, the abort controller, whose signal is
  never handed to the request) is left out.
\<close>

record WidgetState =
  filteredProducts :: "Product list"
  totalProducts :: int
  displayedProducts :: int
  hasMoreProducts :: bool
  currentPage :: int
  isLoading :: bool
  isLoadingMore :: bool
  searchMessage :: "string option"
  isShowingRecommended :: bool
  categoryCounts :: "string \<rightharpoonup> int"
  brandCounts :: "string \<rightharpoonup> int"
  tagCounts :: "string \<rightharpoonup> int"
  stockStatusCounts :: "string \<rightharpoonup> int"
  featuredCount :: int
  notFeaturedCount :: int
  saleCount :: int
  notSaleCount :: int
  globalStockStatusCounts :: "string \<rightharpoonup> int"
  globalFeaturedCount :: int
  globalNotFeaturedCount :: int
  globalSaleCount :: int
  globalNotSaleCount :: int
  globalCategoryCounts :: "string \<rightharpoonup> int"
  globalBrandCounts :: "string \<rightharpoonup> int"
  globalTagCounts :: "string \<rightharpoonup> int"
  globalFacetsFetched :: bool
  globalTotalProducts :: int
  maxPrice :: real
  filteredMaxPrice :: real
  searchRequestId :: nat
  showRecommendations :: bool
  isInitialState :: bool
  hasSearched :: bool
  isSearchingFromSuggestion :: bool
  lastSearchedQuery :: "string option"
  lastSearchedFilters :: string
  forceSearch :: nat
  searchQuery :: "string option"
  filters :: FilterState

section \<open>The filter store\<close>


definition resetPriceRange :: "real \<Rightarrow> FilterState \<Rightarrow> FilterState" where
  "resetPriceRange m f = f\<lparr>priceRange := (0, m)\<rparr>"

definition clearFilters :: "real \<Rightarrow> FilterState \<Rightarrow> FilterState" where
  "clearFilters currentMaxPrice f =
     \<lparr>categories = [], brands = [], colors = [], sizes = [], tags = [], stockStatus = [],
      featuredProducts = [], saleStatus = [], priceRange = (0, currentMaxPrice)\<rparr>"

definition initialFilters :: "real \<Rightarrow> FilterState" where
  "initialFilters initialMaxPrice =
     \<lparr>categories = [], brands = [], colors = [], sizes = [], tags = [], stockStatus = [],
      featuredProducts = [], saleStatus = [], priceRange = (0, initialMaxPrice)\<rparr>"

text \<open>The \<open>useState\<close> and \<open>useRef\<close> initial values (lines 410-518, 764).\<close>

definition initialState :: WidgetState where
  "initialState =
     \<lparr>filteredProducts = [], totalProducts = 0, displayedProducts = 0, hasMoreProducts = True,
      currentPage = 1, isLoading = False, isLoadingMore = False, searchMessage = None,
      isShowingRecommended = False,
      categoryCounts = Map.empty, brandCounts = Map.empty, tagCounts = Map.empty,
      stockStatusCounts = Map.empty,
      featuredCount = 0, notFeaturedCount = 0, saleCount = 0, notSaleCount = 0,
      globalStockStatusCounts = Map.empty,
      globalFeaturedCount = 0, globalNotFeaturedCount = 0, globalSaleCount = 0,
      globalNotSaleCount = 0,
      globalCategoryCounts = Map.empty, globalBrandCounts = Map.empty,
      globalTagCounts = Map.empty,
      globalFacetsFetched = False, globalTotalProducts = 0,
      maxPrice = 10000, filteredMaxPrice = 10000,
      searchRequestId = 0,
      showRecommendations = True, isInitialState = True, hasSearched = False,
      isSearchingFromSuggestion = False,
      lastSearchedQuery = None, lastSearchedFilters = [],
      forceSearch = 0, searchQuery = None,
      filters = initialFilters 10000\<rparr>"

section \<open>performSearch (lines 1354-1723)\<close>

definition nonEmptyParam :: "string list \<Rightarrow> string list option" where
  "nonEmptyParam xs = (if length xs > 0 then Some xs else None)"

definition featuredParam :: "FilterState \<Rightarrow> string option" where
  "featuredParam f =
     (if length (featuredProducts f) > 0 then
        (if ''Featured'' \<in> set (featuredProducts f) \<and> ''Not Featured'' \<notin> set (featuredProducts f)
         then Some ''true''
         else if ''Not Featured'' \<in> set (featuredProducts f) \<and> ''Featured'' \<notin> set (featuredProducts f)
         then Some ''false''
         else None)
      else None)"

definition inSaleParam :: "FilterState \<Rightarrow> string option" where
  "inSaleParam f =
     (if length (saleStatus f) > 0 then
        (if ''On Sale'' \<in> set (saleStatus f) \<and> ''Not On Sale'' \<notin> set (saleStatus f)
         then Some ''true''
         else if ''Not On Sale'' \<in> set (saleStatus f) \<and> ''On Sale'' \<notin> set (saleStatus f)
         then Some ''false''
         else None)
      else None)"

text \<open>The \<open>searchParams\<close> object of the primary request (lines 1427-1447).\<close>

definition searchParams :: "string \<Rightarrow> string \<Rightarrow> FilterState \<Rightarrow> real \<Rightarrow> SearchParams" where
  "searchParams query url f maxP =
     \<lparr>paramQ = query, paramStoreUrl = url, paramPage = 1, paramLimit = 12,
      paramCategories = nonEmptyParam (categories f),
      paramColors = nonEmptyParam (colors f),
      paramSizes = nonEmptyParam (sizes f),
      paramBrands = nonEmptyParam (brands f),
      paramTags = nonEmptyParam (tags f),
      paramStockStatus = nonEmptyParam (stockStatus f),
      paramPriceRange =
        (if fst (priceRange f) > 0 \<or> snd (priceRange f) < maxP then Some (priceRange f) else None),
      paramInsale = inSaleParam f,
      paramFeatured = featuredParam f,
      paramSort = None\<rparr>"

text \<open>The request of the zero-result fallback (lines 1625-1631).\<close>

definition fallbackParams :: "string \<Rightarrow> SearchParams" where
  "fallbackParams url =
     \<lparr>paramQ = [], paramStoreUrl = url, paramPage = 1, paramLimit = 12,
      paramCategories = None, paramColors = None, paramSizes = None, paramBrands = None,
      paramTags = None, paramStockStatus = None, paramPriceRange = None,
      paramInsale = None, paramFeatured = None, paramSort = Some ''featured''\<rparr>"

text \<open>
  What one call of \<open>fetchProducts\<close> keeps in its closure while it waits: the tag it
  took from the counter, the store URL, the debounced filters of that render and the
  request it sent.
\<close>

record SearchContext =
  currentRequestId :: nat
  ctxStoreUrl :: string
  debouncedFilters :: FilterState
  request :: SearchParams

text \<open>
  The synchronous part of \<open>performSearch(query)\<close>: the guard on the store URL, the
  reset inside \<open>startTransition\<close>, the increment of the request counter and the
  issued request (\<open>None\<close>: nothing was issued). The price range is a pair of numbers,
  so the early return on an undefined bound (lines 1384-1391) is never taken.
\<close>

definition performSearch ::
  "string option \<Rightarrow> FilterState \<Rightarrow> string \<Rightarrow> WidgetState \<Rightarrow> WidgetState \<times> SearchContext option" where
  "performSearch storeUrlProp dFilters query s =
     (case storeUrlProp of
        None \<Rightarrow> (s, None)
      | Some url \<Rightarrow>
          if url = [] then (s, None)
          else
            let s1 = s\<lparr>isLoading := True, currentPage := 1, hasMoreProducts := True,
                       displayedProducts := 0, filteredProducts := []\<rparr>;
                s2 = s1\<lparr>searchRequestId := searchRequestId s1 + 1\<rparr>
            in (s2, Some \<lparr>currentRequestId = searchRequestId s2, ctxStoreUrl = url,
                           debouncedFilters = dFilters,
                           request = searchParams query url dFilters (maxPrice s)\<rparr>))"

text \<open>The \<open>finally\<close> block.\<close>

definition finishLoading :: "WidgetState \<Rightarrow> WidgetState" where
  "finishLoading s = s\<lparr>isLoading := False\<rparr>"

fun coalescePrice :: "price_field \<Rightarrow> price_field \<Rightarrow> price_field" where
  "coalescePrice NoPrice b = b"
| "coalescePrice a b = a"

fun positiveNumber :: "price_field \<Rightarrow> real option" where
  "positiveNumber (PriceNumber x) = (if x > 0 then Some x else None)"
| "positiveNumber v = None"

text \<open>\<open>Math.max(...xs)\<close> of a non-empty list, and \<open>Math.ceil(x / step) * step\<close>.\<close>

definition maxOfList :: "real list \<Rightarrow> real" where
  "maxOfList xs = foldl max (hd xs) (tl xs)"

definition roundUpTo :: "real \<Rightarrow> real \<Rightarrow> real" where
  "roundUpTo step x = of_int \<lceil>x / step\<rceil> * step"

definition filteredPrices :: "Product list \<Rightarrow> real list" where
  "filteredPrices ps =
     List.map_filter (\<lambda>p. positiveNumber (coalescePrice (currentPrice p) (originalPrice p))) ps"

text \<open>
  The block \<open>if (result.facets) { ... }\<close> (lines 1486-1581): category, brand and tag
  counts are replaced when the facet has buckets; stock, featured and sale counts are
  not written; the filtered maximum price is recomputed from the page's products.
\<close>

definition updateReactiveFacets :: "SearchResponse \<Rightarrow> WidgetState \<Rightarrow> WidgetState" where
  "updateReactiveFacets r s =
     (case facets r of
        None \<Rightarrow> s
      | Some fs \<Rightarrow>
          let categoryBuckets = extractFacetBuckets (categoryFacet fs);
              s1 = (if length categoryBuckets > 0
                    then s\<lparr>categoryCounts := bucketCounts categoryBuckets\<rparr> else s);
              brandBuckets = extractFacetBuckets (brandFacet fs);
              s2 = (if length brandBuckets > 0
                    then s1\<lparr>brandCounts := bucketCounts brandBuckets\<rparr> else s1);
              tagBuckets = extractFacetBuckets (tagFacet fs);
              s3 = (if length tagBuckets > 0
                    then s2\<lparr>tagCounts := bucketCounts tagBuckets\<rparr> else s2);
              productPrices = filteredPrices (products r)
          in if length (products r) > 0 \<and> length productPrices > 0
             then s3\<lparr>filteredMaxPrice := roundUpTo 50 (maxOfList productPrices)\<rparr>
             else s3)"

text \<open>The locals after the response has been read (lines 1456-1468 and 1593-1598).\<close>

definition responsePage :: "api_result \<Rightarrow> ResultPage" where
  "responsePage result =
     (case result of
        IsSearchResponse r \<Rightarrow>
          \<lparr>pageProducts = products r,
           pageTotal = (case total r of Some n \<Rightarrow> n | None \<Rightarrow> 0),
           pageHasMore = (case hasMore r of Some b \<Rightarrow> b | None \<Rightarrow> False),
           pageMessage = message r,
           pageShowingRecommended = (case showingRecommended r of Some b \<Rightarrow> b | None \<Rightarrow> False)\<rparr>
      | ProductArray ps \<Rightarrow>
          \<lparr>pageProducts = [], pageTotal = 0, pageHasMore = False, pageMessage = None,
           pageShowingRecommended = False\<rparr>
      | Unexpected \<Rightarrow>
          \<lparr>pageProducts = [], pageTotal = 0, pageHasMore = False, pageMessage = None,
           pageShowingRecommended = False\<rparr>)"

definition hasActiveFilters :: "FilterState \<Rightarrow> bool" where
  "hasActiveFilters f =
     (length (categories f) > 0 \<or> length (brands f) > 0 \<or> length (colors f) > 0
      \<or> length (sizes f) > 0 \<or> length (tags f) > 0 \<or> length (stockStatus f) > 0
      \<or> length (featuredProducts f) > 0 \<or> length (saleStatus f) > 0)"

text \<open>The list \<open>appliedFilters\<close> of the fallback message (lines 1639-1664).\<close>

definition appliedFilters :: "FilterState \<Rightarrow> string list" where
  \<open>appliedFilters f =
     (if length (categories f) > 0
      then [if length (categories f) = 1 then ''category "'' @ hd (categories f) @ ''"''
            else showNat (length (categories f)) @ '' categories'']
      else [])
     @ (if length (brands f) > 0
        then [if length (brands f) = 1 then ''brand "'' @ hd (brands f) @ ''"''
              else showNat (length (brands f)) @ '' brands'']
        else [])
     @ (if length (colors f) > 0 then [showNat (length (colors f)) @ '' color(s)''] else [])
     @ (if length (sizes f) > 0 then [showNat (length (sizes f)) @ '' size(s)''] else [])
     @ (if length (stockStatus f) > 0
        then [joinWith '', '' (map (\<lambda>st. replaceFirstSpace (toLowerCase st)) (stockStatus f))]
        else [])
     @ (if length (featuredProducts f) > 0 then [''featured products''] else [])
     @ (if length (saleStatus f) > 0 then [''on sale''] else [])\<close>

definition filterDescription :: "FilterState \<Rightarrow> string" where
  "filterDescription f =
     (if length (appliedFilters f) > 0 then joinWith '', '' (appliedFilters f) else ''your filters'')"

definition fallbackMessage :: "FilterState \<Rightarrow> string" where
  "fallbackMessage f =
     ''No results found for '' @ filterDescription f @ ''. Showing popular products instead.''"

definition withStoreUrl :: "string \<Rightarrow> Product \<Rightarrow> Product" where
  "withStoreUrl url p =
     p\<lparr>storeUrl := (case storeUrl p of
                       Some u \<Rightarrow> (if u \<noteq> [] then Some u else Some url)
                     | None \<Rightarrow> Some url)\<rparr>"

text \<open>The six setters at the end of the \<open>try\<close> block (lines 1689-1699).\<close>

definition applyPage :: "string \<Rightarrow> ResultPage \<Rightarrow> WidgetState \<Rightarrow> WidgetState" where
  "applyPage url pg s =
     s\<lparr>filteredProducts := map (withStoreUrl url) (pageProducts pg),
       totalProducts := pageTotal pg,
       displayedProducts := int (length (pageProducts pg)),
       hasMoreProducts := pageHasMore pg,
       searchMessage := pageMessage pg,
       isShowingRecommended := pageShowingRecommended pg\<rparr>"

text \<open>
  A call of \<open>fetchProducts\<close> that waits for the fallback request: its closure, the
  locals read from the primary response, and the fallback request it sent.
\<close>

record FallbackContext =
  search :: SearchContext
  primaryPage :: ResultPage
  fallbackRequest :: SearchParams

text \<open>
  \<open>fetchProducts\<close> from the moment the primary request settles up to its end or to
  the \<open>await\<close> of the fallback request (\<open>Some\<close>: the fallback request
  \<open>fallbackParams\<close> is now in flight). The state \<open>s\<close> is the component's state at
  that moment.
\<close>

definition performSearch_onResponse ::
  "SearchContext \<Rightarrow> settled \<Rightarrow> WidgetState \<Rightarrow> WidgetState \<times> FallbackContext option" where
  "performSearch_onResponse ctx outcome s =
     (case outcome of
        Rejected e \<Rightarrow>
          (if e = AbortError then (finishLoading s, None)
           else (finishLoading (s\<lparr>filteredProducts := []\<rparr>), None))
      | Fulfilled result \<Rightarrow>
          if currentRequestId ctx \<noteq> searchRequestId s then (finishLoading s, None)
          else
            let pg = responsePage result;
                s1 = (case result of
                        IsSearchResponse r \<Rightarrow> updateReactiveFacets r s
                      | ProductArray ps \<Rightarrow> s
                      | Unexpected \<Rightarrow> s)
            in if currentRequestId ctx \<noteq> searchRequestId s1 then (finishLoading s1, None)
               else if pageTotal pg = 0 \<and> hasActiveFilters (debouncedFilters ctx)
               then (s1, Some \<lparr>search = ctx, primaryPage = pg,
                                fallbackRequest = fallbackParams (ctxStoreUrl ctx)\<rparr>)
               else (finishLoading (applyPage (ctxStoreUrl ctx) pg s1), None))"

text \<open>
  \<open>fetchProducts\<close> from the moment the fallback request settles (lines 1633-1709); a
  rejected fallback is caught by the inner \<open>catch\<close>.
\<close>

definition performSearch_onFallback :: "FallbackContext \<Rightarrow> settled \<Rightarrow> WidgetState \<Rightarrow> WidgetState" where
  "performSearch_onFallback fb outcome s =
     (let ctx = search fb;
          pg = (case outcome of
                  Fulfilled (IsSearchResponse fr) \<Rightarrow>
                    if length (products fr) > 0
                    then \<lparr>pageProducts = products fr, pageTotal = 0, pageHasMore = False,
                          pageMessage = Some (fallbackMessage (debouncedFilters ctx)),
                          pageShowingRecommended = True\<rparr>
                    else primaryPage fb
                | Fulfilled (ProductArray ps) \<Rightarrow> primaryPage fb
                | Fulfilled Unexpected \<Rightarrow> primaryPage fb
                | Rejected e \<Rightarrow> primaryPage fb)
      in finishLoading (applyPage (ctxStoreUrl ctx) pg s))"

section \<open>The search effect (lines 1725-1818)\<close>

text \<open>\<open>debouncedSearchQuery?.trim() || ''\<close>; the debounced query may be \<open>undefined\<close>.\<close>

definition queryTrim :: "string option \<Rightarrow> string" where
  "queryTrim debouncedSearchQuery = (case debouncedSearchQuery of None \<Rightarrow> [] | Some t \<Rightarrow> trim t)"

definition hasActiveDebouncedFilters :: "FilterState \<Rightarrow> real \<Rightarrow> bool" where
  "hasActiveDebouncedFilters f maxP =
     (length (categories f) > 0 \<or> length (stockStatus f) > 0
      \<or> length (featuredProducts f) > 0 \<or> length (saleStatus f) > 0
      \<or> (fst (priceRange f) > 0 \<or> snd (priceRange f) < maxP))"

text \<open>
  One run of the effect on the values of one render. \<open>stringify\<close> is
  \<open>JSON.stringify\<close> on the filter object. The result is the state after the run and
  the argument of the call of \<open>performSearch\<close>, if the run makes one. The tests read
  the render's values (\<open>s\<close>), as the closure does, also after the setters ran.
\<close>

definition searchEffect ::
  "(FilterState \<Rightarrow> string) \<Rightarrow> string option \<Rightarrow> string option \<Rightarrow> FilterState \<Rightarrow> WidgetState
     \<Rightarrow> WidgetState \<times> string option" where
  "searchEffect stringify storeUrlProp debouncedSearchQuery dFilters s =
     (if storeUrlProp = None \<or> storeUrlProp = Some [] then (s, None)
      else
        let hasActive = hasActiveDebouncedFilters dFilters (maxPrice s);
            justTransitioned =
              (hasActive \<and> isInitialState s \<and> queryTrim debouncedSearchQuery = []);
            s1 = (if justTransitioned
                  then s\<lparr>showRecommendations := False, isInitialState := False, hasSearched := True\<rparr>
                  else s)
        in if \<not> justTransitioned
              \<and> (showRecommendations s
                   \<or> (isInitialState s \<and> \<not> hasActive \<and> queryTrim debouncedSearchQuery = []))
           then (s1, None)
           else if isSearchingFromSuggestion s then (s1\<lparr>isSearchingFromSuggestion := False\<rparr>, None)
           else
             let currentQuery = queryTrim debouncedSearchQuery;
                 currentFilters = stringify dFilters
             in if lastSearchedQuery s = Some currentQuery \<and> lastSearchedFilters s = currentFilters
                then (s1, None)
                else
                  let s2 = s1\<lparr>lastSearchedQuery := Some currentQuery,
                              lastSearchedFilters := currentFilters\<rparr>
                  in (case debouncedSearchQuery of
                        None \<Rightarrow> (s2, Some [])
                      | Some t \<Rightarrow>
                          if trim t = [] then (s2, Some [])
                          else if length (trim t) \<ge> 3 then (s2, Some t)
                          else (s2, None)))"

text \<open>The effect together with the call of \<open>performSearch\<close> it makes.\<close>

definition runSearchEffect ::
  "(FilterState \<Rightarrow> string) \<Rightarrow> string option \<Rightarrow> string option \<Rightarrow> FilterState \<Rightarrow> WidgetState
     \<Rightarrow> WidgetState \<times> SearchContext option" where
  "runSearchEffect stringify storeUrlProp debouncedSearchQuery dFilters s =
     (case searchEffect stringify storeUrlProp debouncedSearchQuery dFilters s of
        (s1, None) \<Rightarrow> (s1, None)
      | (s1, Some query) \<Rightarrow> performSearch storeUrlProp dFilters query s1)"

text \<open>The number of requests a run issued.\<close>

fun requestCount :: "'a option \<Rightarrow> nat" where
  "requestCount None = 0"
| "requestCount (Some r) = 1"

section \<open>handleClearAll (lines 2023-2084)\<close>

definition handleClearAll :: "WidgetState \<Rightarrow> WidgetState" where
  "handleClearAll s =
     s\<lparr>searchQuery := Some [],
       filteredProducts := [], displayedProducts := 0, totalProducts := 0, currentPage := 1,
       hasMoreProducts := True,
       filteredMaxPrice := maxPrice s,
       filters := clearFilters (maxPrice s) (resetPriceRange (maxPrice s) (filters s)),
       stockStatusCounts := globalStockStatusCounts s,
       featuredCount := globalFeaturedCount s,
       notFeaturedCount := globalNotFeaturedCount s,
       saleCount := globalSaleCount s,
       notSaleCount := globalNotSaleCount s,
       categoryCounts := globalCategoryCounts s,
       brandCounts := globalBrandCounts s,
       tagCounts := globalTagCounts s,
       showRecommendations := False, isInitialState := False, hasSearched := True,
       isSearchingFromSuggestion := False,
       searchMessage := None, isShowingRecommended := False,
       lastSearchedQuery := None, lastSearchedFilters := [],
       isLoading := False, isLoadingMore := False,
       forceSearch := forceSearch s + 1\<rparr>"

section \<open>loadMoreProducts (lines 2165-2274)\<close>

definition loadMoreParams :: "string option \<Rightarrow> string \<Rightarrow> FilterState \<Rightarrow> int \<Rightarrow> SearchParams" where
  "loadMoreParams debouncedSearchQuery url f curPage =
     \<lparr>paramQ = (case debouncedSearchQuery of Some t \<Rightarrow> t | None \<Rightarrow> []),
      paramStoreUrl = url, paramPage = curPage + 1, paramLimit = 12,
      paramCategories = nonEmptyParam (categories f),
      paramColors = nonEmptyParam (colors f),
      paramSizes = nonEmptyParam (sizes f),
      paramBrands = nonEmptyParam (brands f),
      paramTags = nonEmptyParam (tags f),
      paramStockStatus = nonEmptyParam (stockStatus f),
      paramPriceRange = Some (priceRange f),
      paramInsale = inSaleParam f,
      paramFeatured = featuredParam f,
      paramSort = None\<rparr>"

record LoadMoreContext =
  loadMoreStoreUrl :: string
  loadMoreRequest :: SearchParams

text \<open>Up to the \<open>await\<close>: the guard, \<open>setIsLoadingMore(true)\<close> and the request.\<close>

definition loadMoreProducts ::
  "string option \<Rightarrow> string option \<Rightarrow> FilterState \<Rightarrow> WidgetState
     \<Rightarrow> WidgetState \<times> LoadMoreContext option" where
  "loadMoreProducts storeUrlProp debouncedSearchQuery dFilters s =
     (case storeUrlProp of
        None \<Rightarrow> (s, None)
      | Some url \<Rightarrow>
          if isLoadingMore s \<or> \<not> hasMoreProducts s \<or> url = [] then (s, None)
          else (s\<lparr>isLoadingMore := True\<rparr>,
                Some \<lparr>loadMoreStoreUrl = url,
                      loadMoreRequest =
                        loadMoreParams debouncedSearchQuery url dFilters (currentPage s)\<rparr>))"

text \<open>From the moment the request settles.\<close>

definition loadMoreProducts_onResponse :: "LoadMoreContext \<Rightarrow> settled \<Rightarrow> WidgetState \<Rightarrow> WidgetState" where
  "loadMoreProducts_onResponse ctx outcome s =
     (case outcome of
        Rejected e \<Rightarrow> s\<lparr>isLoadingMore := False\<rparr>
      | Fulfilled result \<Rightarrow>
          let newProducts = (case result of
                               IsSearchResponse r \<Rightarrow> products r
                             | ProductArray ps \<Rightarrow> ps
                             | Unexpected \<Rightarrow> []);
              more = (case result of
                        IsSearchResponse r \<Rightarrow> (case hasMore r of Some b \<Rightarrow> b | None \<Rightarrow> False)
                      | ProductArray ps \<Rightarrow> False
                      | Unexpected \<Rightarrow> False);
              s1 = (if length newProducts = 0 then s\<lparr>hasMoreProducts := False\<rparr>
                    else s\<lparr>filteredProducts :=
                             filteredProducts s @ map (withStoreUrl (loadMoreStoreUrl ctx)) newProducts,
                           displayedProducts := displayedProducts s + int (length newProducts),
                           currentPage := currentPage s + 1,
                           hasMoreProducts := more\<rparr>)
          in s1\<lparr>isLoadingMore := False\<rparr>)"

section \<open>fetchGlobalFacets (lines 849-1063)\<close>

text \<open>\<open>t\<close> is the translation function of \<open>useTranslation\<close>.\<close>

definition stockDisplayName :: "(string \<Rightarrow> string) \<Rightarrow> string \<Rightarrow> string" where
  "stockDisplayName t k =
     (let normalized = toLowerCase k in
      if normalized = ''instock'' then t ''stock.inStock''
      else if normalized = ''outofstock'' then t ''stock.outOfStock''
      else if normalized = ''onbackorder'' then t ''stock.onBackorder''
      else k)"

definition putStockCount ::
  "(string \<Rightarrow> string) \<Rightarrow> (string \<rightharpoonup> int) \<Rightarrow> FacetBucket \<Rightarrow> (string \<rightharpoonup> int)" where
  "putStockCount t counts bucket =
     counts(stockDisplayName t (getFacetBucketKey bucket) \<mapsto> doc_count bucket)"

definition globalPrices :: "Product list \<Rightarrow> real list" where
  "globalPrices ps =
     List.map_filter
       (\<lambda>p. positiveNumber (coalescePrice (currentPrice p) (coalescePrice (originalPrice p) (price p))))
       ps"

text \<open>The maximum price of the global fetch (lines 992-1055).\<close>

definition globalMaxPrice :: "Facets \<Rightarrow> Product list \<Rightarrow> real option" where
  "globalMaxPrice fs ps =
     (case priceStatsMax fs of
        Some m \<Rightarrow>
          if m \<noteq> 0 then Some (roundUpTo 100 m)
          else if length ps > 0 \<and> length (globalPrices ps) > 0
          then Some (roundUpTo 100 (maxOfList (globalPrices ps))) else None
      | None \<Rightarrow>
          if length ps > 0 \<and> length (globalPrices ps) > 0
          then Some (roundUpTo 100 (maxOfList (globalPrices ps))) else None)"

definition applyGlobalFacets :: "(string \<Rightarrow> string) \<Rightarrow> Facets \<Rightarrow> Product list \<Rightarrow> WidgetState \<Rightarrow> WidgetState" where
  "applyGlobalFacets t fs ps s =
     (let stockBuckets = extractFacetBuckets (instockFacet fs);
          s1 = (if length stockBuckets > 0
                then s\<lparr>stockStatusCounts := foldl (putStockCount t) Map.empty stockBuckets,
                       globalStockStatusCounts := foldl (putStockCount t) Map.empty stockBuckets\<rparr>
                else s);
          featuredBuckets = extractFacetBuckets (featuredFacet fs);
          s2 = (if length featuredBuckets > 0
                then s1\<lparr>featuredCount := fst (booleanFacetCounts featuredBuckets),
                        notFeaturedCount := snd (booleanFacetCounts featuredBuckets),
                        globalFeaturedCount := fst (booleanFacetCounts featuredBuckets),
                        globalNotFeaturedCount := snd (booleanFacetCounts featuredBuckets)\<rparr>
                else s1);
          saleBuckets = extractFacetBuckets (insaleFacet fs);
          s3 = (if length saleBuckets > 0
                then s2\<lparr>saleCount := fst (booleanFacetCounts saleBuckets),
                        notSaleCount := snd (booleanFacetCounts saleBuckets),
                        globalSaleCount := fst (booleanFacetCounts saleBuckets),
                        globalNotSaleCount := snd (booleanFacetCounts saleBuckets)\<rparr>
                else s2);
          categoryBuckets = extractFacetBuckets (categoryFacet fs);
          s4 = (if length categoryBuckets > 0
                then s3\<lparr>categoryCounts := bucketCounts categoryBuckets,
                        globalCategoryCounts := bucketCounts categoryBuckets\<rparr>
                else s3);
          brandBuckets = extractFacetBuckets (brandFacet fs);
          s5 = (if length brandBuckets > 0
                then s4\<lparr>brandCounts := bucketCounts brandBuckets,
                        globalBrandCounts := bucketCounts brandBuckets\<rparr>
                else s4);
          tagBuckets = extractFacetBuckets (tagFacet fs);
          s6 = (if length tagBuckets > 0
                then s5\<lparr>tagCounts := bucketCounts tagBuckets,
                        globalTagCounts := bucketCounts tagBuckets\<rparr>
                else s5)
      in (case globalMaxPrice fs ps of
            Some roundedMaxPrice \<Rightarrow>
              s6\<lparr>maxPrice := roundedMaxPrice, filteredMaxPrice := roundedMaxPrice\<rparr>
          | None \<Rightarrow> s6))"

text \<open>
  The guard of \<open>fetchGlobalFacets\<close> (\<open>True\<close>: the unfiltered request
  \<open>{q: '', page: 1, limit: 100}\<close> is sent) and the function from the moment that
  request settles.
\<close>

definition fetchGlobalFacets :: "string option \<Rightarrow> WidgetState \<Rightarrow> bool" where
  "fetchGlobalFacets storeUrlProp s =
     (\<not> (storeUrlProp = None \<or> storeUrlProp = Some [] \<or> globalFacetsFetched s))"

definition fetchGlobalFacets_onResponse :: "(string \<Rightarrow> string) \<Rightarrow> settled \<Rightarrow> WidgetState \<Rightarrow> WidgetState" where
  "fetchGlobalFacets_onResponse t outcome s =
     (case outcome of
        Rejected e \<Rightarrow> s
      | Fulfilled (IsSearchResponse r) \<Rightarrow>
          let s0 = s\<lparr>globalFacetsFetched := True\<rparr>;
              s1 = (case total r of Some n \<Rightarrow> s0\<lparr>globalTotalProducts := n\<rparr> | None \<Rightarrow> s0)
          in (case facets r of
                Some fs \<Rightarrow> applyGlobalFacets t fs (products r) s1
              | None \<Rightarrow> s1)
      | Fulfilled (ProductArray ps) \<Rightarrow> s\<lparr>globalFacetsFetched := True\<rparr>
      | Fulfilled Unexpected \<Rightarrow> s\<lparr>globalFacetsFetched := True\<rparr>)"

section \<open>The price-range effects (lines 657-682)\<close>




section \<open>Searches in flight\<close>

text \<open>
  The component together with the calls of \<open>fetchProducts\<close> that wait for a request,
  each under the tag it took from the request counter. An event is a call of
  \<open>performSearch\<close>, the settling of the primary request of the search with a given tag,
  the settling of its fallback request, or a click on "clear all". Requests settle in any
  order: an event list is one interleaving.
\<close>

datatype event =
    Issue "string option" FilterState string
  | PrimarySettles nat settled
  | FallbackSettles nat settled
  | ClearAll

record Session =
  widget :: WidgetState
  awaitingPrimary :: "(nat \<times> SearchContext) list"
  awaitingFallback :: "(nat \<times> FallbackContext) list"

definition withoutTag :: "nat \<Rightarrow> (nat \<times> 'a) list \<Rightarrow> (nat \<times> 'a) list" where
  "withoutTag n entries = filter (\<lambda>entry. fst entry \<noteq> n) entries"

fun sessionStep :: "Session \<Rightarrow> event \<Rightarrow> Session" where
  "sessionStep ses (Issue url f query) =
     (case performSearch url f query (widget ses) of
        (s', None) \<Rightarrow> ses\<lparr>widget := s'\<rparr>
      | (s', Some ctx) \<Rightarrow>
          ses\<lparr>widget := s',
              awaitingPrimary := (currentRequestId ctx, ctx) # awaitingPrimary ses\<rparr>)"
| "sessionStep ses (PrimarySettles n outcome) =
     (case map_of (awaitingPrimary ses) n of
        None \<Rightarrow> ses
      | Some ctx \<Rightarrow>
          (case performSearch_onResponse ctx outcome (widget ses) of
             (s', None) \<Rightarrow>
               ses\<lparr>widget := s', awaitingPrimary := withoutTag n (awaitingPrimary ses)\<rparr>
           | (s', Some fb) \<Rightarrow>
               ses\<lparr>widget := s', awaitingPrimary := withoutTag n (awaitingPrimary ses),
                   awaitingFallback := (n, fb) # awaitingFallback ses\<rparr>))"
| "sessionStep ses (FallbackSettles n outcome) =
     (case map_of (awaitingFallback ses) n of
        None \<Rightarrow> ses
      | Some fb \<Rightarrow>
          ses\<lparr>widget := performSearch_onFallback fb outcome (widget ses),
              awaitingFallback := withoutTag n (awaitingFallback ses)\<rparr>)"
| "sessionStep ses ClearAll = ses\<lparr>widget := handleClearAll (widget ses)\<rparr>"

definition runSession :: "Session \<Rightarrow> event list \<Rightarrow> Session" where
  "runSession ses events = foldl sessionStep ses events"

definition startSession :: "WidgetState \<Rightarrow> Session" where
  "startSession s = \<lparr>widget = s, awaitingPrimary = [], awaitingFallback = []\<rparr>"

text \<open>
  The displayed result state: result list, total, hasMore, message, the recommended
  flag, and the category, brand and tag counts.
\<close>

definition resultState ::
  "WidgetState \<Rightarrow>
     Product list \<times> int \<times> bool \<times> string option \<times> bool
       \<times> (string \<rightharpoonup> int) \<times> (string \<rightharpoonup> int) \<times> (string \<rightharpoonup> int)" where
  "resultState s =
     (filteredProducts s, totalProducts s, hasMoreProducts s, searchMessage s,
      isShowingRecommended s, categoryCounts s, brandCounts s, tagCounts s)"

text \<open>The five counts that are shown from the global fetch.\<close>

definition staticCounts :: "WidgetState \<Rightarrow> (string \<rightharpoonup> int) \<times> int \<times> int \<times> int \<times> int" where
  "staticCounts s =
     (stockStatusCounts s, featuredCount s, notFeaturedCount s, saleCount s, notSaleCount s)"

definition globalStaticCounts :: "WidgetState \<Rightarrow> (string \<rightharpoonup> int) \<times> int \<times> int \<times> int \<times> int" where
  "globalStaticCounts s =
     (globalStockStatusCounts s, globalFeaturedCount s, globalNotFeaturedCount s,
      globalSaleCount s, globalNotSaleCount s)"

section \<open>Sample values\<close>

text \<open>Concrete inputs on which the theorems below are instantiated.\<close>

definition shopUrl :: string where
  "shopUrl = ''https://shop.example''"

text \<open>An instance of the serialisation of the filter object, for concrete runs.\<close>

definition sampleStringify :: "FilterState \<Rightarrow> string" where
  "sampleStringify f =
     joinWith '';''
       [joinWith '','' (categories f), joinWith '','' (brands f), joinWith '','' (colors f),
        joinWith '','' (sizes f), joinWith '','' (tags f), joinWith '','' (stockStatus f),
        joinWith '','' (featuredProducts f), joinWith '','' (saleStatus f)]"

text \<open>The state once the user has typed a query (the effect of lines 1178-1206).\<close>

definition searchingState :: WidgetState where
  "searchingState =
     initialState\<lparr>showRecommendations := False, isInitialState := False, hasSearched := True\<rparr>"

definition sampleProduct :: "string \<Rightarrow> Product" where
  "sampleProduct name =
     \<lparr>productId = name, storeUrl = Some shopUrl, currentPrice = NoPrice, originalPrice = NoPrice,
      price = NoPrice\<rparr>"

definition nikeFilters :: FilterState where
  "nikeFilters = (initialFilters 10000)\<lparr>brands := [''Nike'']\<rparr>"

definition tagFilters :: FilterState where
  "tagFilters = (initialFilters 10000)\<lparr>tags := [''summer'']\<rparr>"

text \<open>The responses \<open>{total: 0, products: []}\<close> and \<open>{products: [P1, P2], total: 5}\<close>.\<close>

definition zeroResponse :: api_result where
  "zeroResponse =
     IsSearchResponse \<lparr>products = [], total = Some 0, hasMore = None, message = None,
                       showingRecommended = None, facets = None\<rparr>"

definition popularResponse :: api_result where
  "popularResponse =
     IsSearchResponse \<lparr>products = [sampleProduct ''P1'', sampleProduct ''P2''], total = Some 5,
                       hasMore = None, message = None, showingRecommended = None, facets = None\<rparr>"

definition otherResponse :: api_result where
  "otherResponse =
     IsSearchResponse \<lparr>products = [sampleProduct ''Q1''], total = Some 1, hasMore = Some False,
                       message = None, showingRecommended = None, facets = None\<rparr>"

text \<open>
  A search with the brand filter "Nike" finds nothing and waits for its fallback request;
  meanwhile a second search without filters is issued and its response is shown.
\<close>

definition supersededSearch :: "event list" where
  "supersededSearch =
     [Issue (Some shopUrl) nikeFilters [],
      PrimarySettles 1 (Fulfilled zeroResponse),
      Issue (Some shopUrl) (initialFilters 10000) [],
      PrimarySettles 2 (Fulfilled otherResponse)]"

text \<open>The scenario of the specification: brand filter "Nike", no match, two popular products.\<close>

definition nikeSearch :: "event list" where
  "nikeSearch =
     [Issue (Some shopUrl) nikeFilters [],
      PrimarySettles 1 (Fulfilled zeroResponse),
      FallbackSettles 1 (Fulfilled popularResponse)]"

text \<open>The same with the tag filter "summer" as the only filter.\<close>

definition tagSearch :: "event list" where
  "tagSearch =
     [Issue (Some shopUrl) tagFilters [],
      PrimarySettles 1 (Fulfilled zeroResponse),
      FallbackSettles 1 (Fulfilled popularResponse)]"

text \<open>
  Two searches issued one after the other; the second is answered first, then the
  request of the first fails with an error that is not an abort.
\<close>

definition lateFailure :: "event list" where
  "lateFailure =
     [Issue (Some shopUrl) nikeFilters [],
      Issue (Some shopUrl) (initialFilters 10000) [],
      PrimarySettles 2 (Fulfilled otherResponse),
      PrimarySettles 1 (Rejected OtherError)]"

text \<open>
  A response whose category facet has the bucket "Shoes": 7, and a later response whose
  facets have no buckets at all.
\<close>

definition noFacets :: Facets where
  "noFacets =
     \<lparr>categoryFacet = NoFacet, brandFacet = NoFacet, colorFacet = NoFacet, sizeFacet = NoFacet,
      tagFacet = NoFacet, instockFacet = NoFacet, featuredFacet = NoFacet, insaleFacet = NoFacet,
      priceStatsMax = None\<rparr>"

definition shoesResponse :: api_result where
  "shoesResponse =
     IsSearchResponse
       \<lparr>products = [sampleProduct ''S1''], total = Some 1, hasMore = Some False, message = None,
        showingRecommended = None,
        facets = Some (noFacets\<lparr>categoryFacet :=
                   FacetObject (Some [RawBucket (Some (KStr ''Shoes'')) None (Some 7)])\<rparr>)\<rparr>"

definition noBucketsResponse :: api_result where
  "noBucketsResponse =
     IsSearchResponse
       \<lparr>products = [sampleProduct ''Q1''], total = Some 1, hasMore = Some False, message = None,
        showingRecommended = None,
        facets = Some (noFacets\<lparr>categoryFacet := FacetObject (Some [])\<rparr>)\<rparr>"

definition reactiveSearches :: "event list" where
  "reactiveSearches =
     [Issue (Some shopUrl) (initialFilters 10000) ''shoes'',
      PrimarySettles 1 (Fulfilled shoesResponse),
      Issue (Some shopUrl) nikeFilters ''shoes'',
      PrimarySettles 2 (Fulfilled noBucketsResponse)]"

text \<open>
  The global fetch answered with stock, featured and sale buckets, on the initial state.
\<close>

definition globalResponse :: api_result where
  "globalResponse =
     IsSearchResponse
       \<lparr>products = [sampleProduct ''S1''], total = Some 50, hasMore = Some True, message = None,
        showingRecommended = None,
        facets = Some (noFacets
          \<lparr>instockFacet := FacetObject (Some [RawBucket (Some (KStr ''instock'')) None (Some 40)]),
           featuredFacet := FacetObject (Some [RawBucket (Some (KNum 1)) (Some ''true'') (Some 5),
                                               RawBucket (Some (KNum 0)) (Some ''false'') (Some 45)]),
           insaleFacet := FacetObject (Some [RawBucket (Some (KStr ''true'')) None (Some 24),
                                             RawBucket (Some (KStr ''false'')) None (Some 26)]),
           priceStatsMax := Some 120\<rparr>)\<rparr>"

definition afterGlobalFetch :: WidgetState where
  "afterGlobalFetch = fetchGlobalFacets_onResponse id (Fulfilled globalResponse) searchingState"



text \<open>Twelve products named with a prefix and the numbers 1 to 12.\<close>

definition twelveProducts :: "string \<Rightarrow> Product list" where
  "twelveProducts prefix = map (\<lambda>i. sampleProduct (prefix @ showNat i)) [1..<13]"

definition firstPage :: api_result where
  "firstPage =
     IsSearchResponse \<lparr>products = twelveProducts ''A'', total = Some 24, hasMore = Some True,
                       message = None, showingRecommended = None, facets = None\<rparr>"

definition secondPage :: api_result where
  "secondPage =
     IsSearchResponse \<lparr>products = twelveProducts ''B'', total = Some 24, hasMore = Some False,
                       message = None, showingRecommended = None, facets = None\<rparr>"

text \<open>
  The state when an earlier search has shown its last page, and a search for "shoes"
  from there whose request fails with an error that is not an abort.
\<close>

definition exhaustedState :: WidgetState where
  "exhaustedState = searchingState\<lparr>hasMoreProducts := False\<rparr>"

definition sampleContext :: SearchContext where
  "sampleContext =
     \<lparr>currentRequestId = 1, ctxStoreUrl = shopUrl, debouncedFilters = initialFilters 10000,
      request = searchParams ''shoes'' shopUrl (initialFilters 10000) 10000\<rparr>"

definition failedSearch :: "event list" where
  "failedSearch =
     [Issue (Some shopUrl) (initialFilters 10000) ''shoes'',
      PrimarySettles 1 (Rejected OtherError)]"


text \<open>The state with the first page of a search shown, and the context of a load-more call.\<close>

definition firstPageShown :: WidgetState where
  "firstPageShown =
     widget (runSession (startSession searchingState)
       [Issue (Some shopUrl) (initialFilters 10000) ''shoes'',
        PrimarySettles 1 (Fulfilled firstPage)])"

definition sampleLoadMore :: LoadMoreContext where
  "sampleLoadMore =
     \<lparr>loadMoreStoreUrl = shopUrl,
      loadMoreRequest = loadMoreParams (Some ''shoes'') shopUrl (initialFilters 10000) 1\<rparr>"

text \<open>The closure of the "Nike" search and of its wait for the fallback request.\<close>

definition nikeContext :: SearchContext where
  "nikeContext =
     \<lparr>currentRequestId = 1, ctxStoreUrl = shopUrl, debouncedFilters = nikeFilters,
      request = searchParams [] shopUrl nikeFilters 10000\<rparr>"

definition nikeFallback :: FallbackContext where
  "nikeFallback =
     \<lparr>search = nikeContext, primaryPage = responsePage zeroResponse,
      fallbackRequest = fallbackParams shopUrl\<rparr>"

definition nikeIssued :: WidgetState where
  "nikeIssued = fst (performSearch (Some shopUrl) nikeFilters [] searchingState)"

section \<open>Boolean facet resolution\<close>






section \<open>Recent searches\<close>

lemma addToRecentSearches_invariant:
  "length xs \<le> 10 \<Longrightarrow> distinct xs \<Longrightarrow>
   length (addToRecentSearches query xs) \<le> 10 \<and> distinct (addToRecentSearches query xs)"
  by (auto simp: addToRecentSearches_def dest: in_set_takeD)

lemma recordSearches_invariant:
  "length xs \<le> 10 \<Longrightarrow> distinct xs \<Longrightarrow>
   length (recordSearches xs queries) \<le> 10 \<and> distinct (recordSearches xs queries)"
proof (induction queries arbitrary: xs)
  case Nil
  then show ?case by simp
next
  case (Cons query queries)
  from Cons.prems have "length (addToRecentSearches query xs) \<le> 10"
    and "distinct (addToRecentSearches query xs)"
    using addToRecentSearches_invariant by blast+
  then show ?case using Cons.IH by simp
qed

lemma recordSearches_snoc:
  "recordSearches xs (queries @ [query]) = addToRecentSearches query (recordSearches xs queries)"
  by (induction queries arbitrary: xs) simp_all

lemma addToRecentSearches_new:
  "trim query \<noteq> [] \<Longrightarrow> trim query \<notin> set xs \<Longrightarrow>
   addToRecentSearches query xs = take 10 (trim query # xs)"
proof -
  assume "trim query \<noteq> []" and new: "trim query \<notin> set xs"
  from new have "filter (\<lambda>item. item \<noteq> trim query) xs = xs"
    by (induction xs) auto
  with \<open>trim query \<noteq> []\<close> new show ?thesis
    by (simp add: addToRecentSearches_def)
qed

lemma addToRecentSearches_old:
  "trim query = [] \<or> trim query \<in> set xs \<Longrightarrow> addToRecentSearches query xs = xs"
  by (auto simp: addToRecentSearches_def)

text \<open>
  C9 (as amended). Starting from a list of at most 10 distinct strings (the empty list
  of a first visit, or a list this component stored), after any sequence of recorded
  searches the list, and so the stored copy, has at most 10 entries and no duplicates. A
  recorded query whose trimmed text is not yet listed is put at the front, before the
  entries already there in their old order, and the list is cut to 10; a query whose
  trimmed text is empty or already listed leaves the list as it is (it is not moved to
  the front). Removing an entry keeps both bounds.
\<close>

theorem C9_recent_searches:
  assumes "length start \<le> 10" and "distinct start"
  shows "length (recordSearches start queries) \<le> 10
    \<and> distinct (recordSearches start queries)
    \<and> saveRecentSearches (recordSearches start queries) =
        (if recordSearches start queries = [] then None else Some (recordSearches start queries))
    \<and> (trim query \<noteq> [] \<and> trim query \<notin> set (recordSearches start queries) \<longrightarrow>
         recordSearches start (queries @ [query]) = take 10 (trim query # recordSearches start queries))
    \<and> (trim query = [] \<or> trim query \<in> set (recordSearches start queries) \<longrightarrow>
         recordSearches start (queries @ [query]) = recordSearches start queries)
    \<and> length (handleRemoveRecentSearch query (recordSearches start queries)) \<le> 10
    \<and> distinct (handleRemoveRecentSearch query (recordSearches start queries))"
proof -
  let ?xs = "recordSearches start queries"
  have inv: "length ?xs \<le> 10" "distinct ?xs"
    using assms recordSearches_invariant by blast+
  have saved: "saveRecentSearches ?xs = (if ?xs = [] then None else Some ?xs)"
    by (simp add: saveRecentSearches_def)
  have new: "trim query \<noteq> [] \<and> trim query \<notin> set ?xs \<longrightarrow>
      recordSearches start (queries @ [query]) = take 10 (trim query # ?xs)"
    by (simp add: recordSearches_snoc addToRecentSearches_new)
  have old: "trim query = [] \<or> trim query \<in> set ?xs \<longrightarrow>
      recordSearches start (queries @ [query]) = ?xs"
    using addToRecentSearches_old [of query ?xs] by (simp add: recordSearches_snoc)
  have rem: "length (handleRemoveRecentSearch query ?xs) \<le> 10"
    "distinct (handleRemoveRecentSearch query ?xs)"
    using inv by (auto simp: handleRemoveRecentSearch_def intro: le_trans [OF length_filter_le])
  from inv saved new old rem show ?thesis by blast
qed

theorem C9_recent_searches_witness:
  "recordSearches [] ([''shoes'', '' hat ''] @ [''shoes'']) = [''hat'', ''shoes'']
   \<and> recordSearches [] ([''shoes'', '' hat ''] @ [''bag '']) = [''bag'', ''hat'', ''shoes'']
   \<and> length (recordSearches [] [''shoes'', '' hat '']) \<le> 10
   \<and> distinct (recordSearches [] [''shoes'', '' hat ''])
   \<and> saveRecentSearches (recordSearches [] [''shoes'', '' hat '']) = Some [''hat'', ''shoes'']"
  using C9_recent_searches [of "[]" "[''shoes'', '' hat '']" "''shoes''"]
    C9_recent_searches [of "[]" "[''shoes'', '' hat '']" "''bag ''"]
  by (simp add: addToRecentSearches_def handleRemoveRecentSearch_def saveRecentSearches_def
      trim_def isWhiteSpace_def)

text \<open>
  The claim as stated fails: after the searches "a", "b", "a" the list is "b", "a"; the
  most recent search is not first.
\<close>

theorem C9_most_recent_first_counterexample:
  "recordSearches [] [''a'', ''b'', ''a''] = [''b'', ''a'']
   \<and> hd (recordSearches [] [''a'', ''b'', ''a'']) \<noteq> ''a''"
  by (simp add: addToRecentSearches_def trim_def isWhiteSpace_def)

section \<open>The search effect: minimum length and deduplication\<close>

lemmas eval_effect = searchEffect_def runSearchEffect_def performSearch_def
  hasActiveDebouncedFilters_def queryTrim_def trim_def isWhiteSpace_def searchingState_def
  initialState_def initialFilters_def shopUrl_def Let_def

lemma searchEffect_short_query:
  "length (queryTrim dq) = 1 \<or> length (queryTrim dq) = 2 \<Longrightarrow>
   snd (searchEffect stringify url dq f s) = None"
  by (auto simp: searchEffect_def queryTrim_def Let_def split: option.splits)

lemma searchEffect_call:
  "snd (searchEffect stringify url dq f s) = Some query \<Longrightarrow>
   (queryTrim dq = [] \<and> query = []) \<or> (3 \<le> length (queryTrim dq) \<and> dq = Some query)"
  by (auto simp: searchEffect_def queryTrim_def Let_def split: option.splits if_splits)

lemma runSearchEffect_None:
  "snd (searchEffect stringify url dq f s) = None \<Longrightarrow>
   runSearchEffect stringify url dq f s = (fst (searchEffect stringify url dq f s), None)"
  by (cases "searchEffect stringify url dq f s") (simp add: runSearchEffect_def)

lemma runSearchEffect_Some:
  "snd (runSearchEffect stringify url dq f s) = Some ctx \<Longrightarrow>
   \<exists>query. snd (searchEffect stringify url dq f s) = Some query"
  by (cases "searchEffect stringify url dq f s")
    (auto simp: runSearchEffect_def split: option.splits)

text \<open>
  C10. When the trimmed debounced query has one or two characters, a run of the search
  effect calls \<open>performSearch\<close> not at all and issues no request. A call is made only
  with the empty string, when the trimmed query is empty (fetch all), or with the query
  itself, when its trimmed text has at least three characters.
\<close>

theorem C10_minimum_query_length:
  "(length (queryTrim dq) = 1 \<or> length (queryTrim dq) = 2 \<longrightarrow>
      snd (searchEffect stringify url dq f s) = None
      \<and> snd (runSearchEffect stringify url dq f s) = None)
   \<and> (snd (searchEffect stringify url dq f s) = Some query \<longrightarrow>
      (queryTrim dq = [] \<and> query = []) \<or> (3 \<le> length (queryTrim dq) \<and> dq = Some query))
   \<and> (snd (runSearchEffect stringify url dq f s) = Some ctx \<longrightarrow>
      queryTrim dq = [] \<or> 3 \<le> length (queryTrim dq))"
proof -
  have short: "length (queryTrim dq) = 1 \<or> length (queryTrim dq) = 2 \<longrightarrow>
      snd (searchEffect stringify url dq f s) = None
      \<and> snd (runSearchEffect stringify url dq f s) = None"
    using searchEffect_short_query [of dq stringify url f s]
    by (auto simp: runSearchEffect_None)
  have call: "snd (searchEffect stringify url dq f s) = Some query \<longrightarrow>
      (queryTrim dq = [] \<and> query = []) \<or> (3 \<le> length (queryTrim dq) \<and> dq = Some query)"
    using searchEffect_call by blast
  have run: "snd (runSearchEffect stringify url dq f s) = Some ctx \<longrightarrow>
      queryTrim dq = [] \<or> 3 \<le> length (queryTrim dq)"
    using runSearchEffect_Some searchEffect_call by blast
  from short call run show ?thesis by blast
qed

theorem C10_minimum_query_length_witness:
  "length (queryTrim (Some '' ab '')) = 2
   \<and> snd (runSearchEffect sampleStringify (Some shopUrl) (Some '' ab '') (initialFilters 10000)
        searchingState) = None
   \<and> snd (searchEffect sampleStringify (Some shopUrl) (Some ''abc'') (initialFilters 10000)
        searchingState) = Some ''abc''
   \<and> snd (searchEffect sampleStringify (Some shopUrl) (Some ''  '') (initialFilters 10000)
        searchingState) = Some []"
proof -
  have two: "length (queryTrim (Some '' ab '')) = 2"
    by (simp add: queryTrim_def trim_def isWhiteSpace_def)
  have more: "snd (searchEffect sampleStringify (Some shopUrl) (Some ''abc'') (initialFilters 10000)
        searchingState) = Some ''abc''"
    "snd (searchEffect sampleStringify (Some shopUrl) (Some ''  '') (initialFilters 10000)
        searchingState) = Some []"
    by (simp_all add: eval_effect)
  from two more show ?thesis
    using C10_minimum_query_length [of "Some '' ab ''" sampleStringify "Some shopUrl"
        "initialFilters 10000" searchingState]
    by simp
qed

lemma searchEffect_records_pair:
  "snd (searchEffect stringify url dq f s) = Some query \<Longrightarrow>
   lastSearchedQuery (fst (searchEffect stringify url dq f s)) = Some (queryTrim dq)
   \<and> lastSearchedFilters (fst (searchEffect stringify url dq f s)) = stringify f"
  by (auto simp: searchEffect_def queryTrim_def Let_def split: option.splits if_splits)

lemma performSearch_keeps_refs:
  "lastSearchedQuery (fst (performSearch url f query s)) = lastSearchedQuery s
   \<and> lastSearchedFilters (fst (performSearch url f query s)) = lastSearchedFilters s"
  by (simp add: performSearch_def Let_def split: option.splits)

lemma searchEffect_duplicate:
  "lastSearchedQuery s = Some (queryTrim dq) \<Longrightarrow> lastSearchedFilters s = stringify f \<Longrightarrow>
   snd (searchEffect stringify url dq f s) = None"
  by (simp add: searchEffect_def Let_def)

lemma runSearchEffect_records_pair:
  assumes "snd (runSearchEffect stringify url dq f s) = Some ctx"
  shows "lastSearchedQuery (fst (runSearchEffect stringify url dq f s)) = Some (queryTrim dq)
   \<and> lastSearchedFilters (fst (runSearchEffect stringify url dq f s)) = stringify f"
proof -
  from assms obtain query where q: "snd (searchEffect stringify url dq f s) = Some query"
    using runSearchEffect_Some by blast
  then obtain s1 where s1: "searchEffect stringify url dq f s = (s1, Some query)"
    by (cases "searchEffect stringify url dq f s") simp
  then have "runSearchEffect stringify url dq f s = performSearch url f query s1"
    by (simp add: runSearchEffect_def)
  moreover from searchEffect_records_pair [OF q] s1
  have "lastSearchedQuery s1 = Some (queryTrim dq) \<and> lastSearchedFilters s1 = stringify f"
    by simp
  ultimately show ?thesis
    by (simp add: performSearch_keeps_refs)
qed

text \<open>
  C2. Two runs of the search effect whose normalized query and serialized filters are the
  same issue at most one request between them, whatever else of the state changed in
  between, as long as nothing reset the two refs (only \<open>handleClearAll\<close> does). A run
  that finds its pair equal to the last recorded pair issues nothing: it returns before
  \<open>performSearch\<close>, leaving the request counter and the result list as they were.
\<close>

theorem C2_dedup:
  assumes "queryTrim dq1 = queryTrim dq2" and "stringify f1 = stringify f2"
    and "lastSearchedQuery s' = lastSearchedQuery (fst (runSearchEffect stringify url1 dq1 f1 s))"
    and "lastSearchedFilters s' = lastSearchedFilters (fst (runSearchEffect stringify url1 dq1 f1 s))"
  shows "requestCount (snd (runSearchEffect stringify url1 dq1 f1 s))
          + requestCount (snd (runSearchEffect stringify url2 dq2 f2 s')) \<le> 1
    \<and> (lastSearchedQuery s = Some (queryTrim dq1) \<and> lastSearchedFilters s = stringify f1 \<longrightarrow>
         snd (runSearchEffect stringify url1 dq1 f1 s) = None
         \<and> searchRequestId (fst (runSearchEffect stringify url1 dq1 f1 s)) = searchRequestId s
         \<and> filteredProducts (fst (runSearchEffect stringify url1 dq1 f1 s)) = filteredProducts s)"
proof -
  have count: "requestCount (snd (runSearchEffect stringify url1 dq1 f1 s))
          + requestCount (snd (runSearchEffect stringify url2 dq2 f2 s')) \<le> 1"
  proof (cases "snd (runSearchEffect stringify url1 dq1 f1 s)")
    case None
    then show ?thesis
      by (cases "snd (runSearchEffect stringify url2 dq2 f2 s')") simp_all
  next
    case (Some ctx)
    from runSearchEffect_records_pair [OF Some] assms
    have "lastSearchedQuery s' = Some (queryTrim dq2)" and "lastSearchedFilters s' = stringify f2"
      by simp_all
    then have "snd (searchEffect stringify url2 dq2 f2 s') = None"
      by (rule searchEffect_duplicate)
    then have "snd (runSearchEffect stringify url2 dq2 f2 s') = None"
      by (simp add: runSearchEffect_None)
    with Some show ?thesis by simp
  qed
  have skip: "lastSearchedQuery s = Some (queryTrim dq1) \<and> lastSearchedFilters s = stringify f1 \<longrightarrow>
         snd (runSearchEffect stringify url1 dq1 f1 s) = None
         \<and> searchRequestId (fst (runSearchEffect stringify url1 dq1 f1 s)) = searchRequestId s
         \<and> filteredProducts (fst (runSearchEffect stringify url1 dq1 f1 s)) = filteredProducts s"
  proof
    assume a: "lastSearchedQuery s = Some (queryTrim dq1) \<and> lastSearchedFilters s = stringify f1"
    then have n: "snd (searchEffect stringify url1 dq1 f1 s) = None"
      using searchEffect_duplicate by blast
    have "searchRequestId (fst (searchEffect stringify url1 dq1 f1 s)) = searchRequestId s
      \<and> filteredProducts (fst (searchEffect stringify url1 dq1 f1 s)) = filteredProducts s"
      using a by (simp add: searchEffect_def Let_def)
    with n show "snd (runSearchEffect stringify url1 dq1 f1 s) = None
         \<and> searchRequestId (fst (runSearchEffect stringify url1 dq1 f1 s)) = searchRequestId s
         \<and> filteredProducts (fst (runSearchEffect stringify url1 dq1 f1 s)) = filteredProducts s"
      by (simp add: runSearchEffect_None)
  qed
  from count skip show ?thesis by blast
qed

theorem C2_dedup_witness:
  "queryTrim (Some ''shoes'') = queryTrim (Some '' shoes '')
   \<and> requestCount (snd (runSearchEffect sampleStringify (Some shopUrl) (Some ''shoes'')
          (initialFilters 10000) searchingState)) = 1
   \<and> requestCount (snd (runSearchEffect sampleStringify (Some shopUrl) (Some '' shoes '')
          (initialFilters 10000)
          (fst (runSearchEffect sampleStringify (Some shopUrl) (Some ''shoes'')
             (initialFilters 10000) searchingState)))) = 0"
proof -
  let ?run1 = "runSearchEffect sampleStringify (Some shopUrl) (Some ''shoes'')
          (initialFilters 10000) searchingState"
  have same: "queryTrim (Some ''shoes'') = queryTrim (Some '' shoes '')"
    by (simp add: queryTrim_def trim_def isWhiteSpace_def)
  have first: "requestCount (snd ?run1) = 1"
    by (simp add: eval_effect)
  from C2_dedup [where s' = "fst ?run1" and ?dq1.0 = "Some ''shoes''" and ?dq2.0 = "Some '' shoes ''"
      and stringify = sampleStringify and ?f1.0 = "initialFilters 10000"
      and ?f2.0 = "initialFilters 10000" and ?url1.0 = "Some shopUrl" and ?url2.0 = "Some shopUrl"
      and s = searchingState, OF same]
  have "requestCount (snd ?run1)
      + requestCount (snd (runSearchEffect sampleStringify (Some shopUrl) (Some '' shoes '')
          (initialFilters 10000) (fst ?run1))) \<le> 1"
    by simp
  with same first show ?thesis by simp
qed

section \<open>Responses and the request counter\<close>

lemma updateReactiveFacets_requestId:
  "searchRequestId (updateReactiveFacets r s) = searchRequestId s"
  by (simp add: updateReactiveFacets_def Let_def split: option.splits)

text \<open>
  A fulfilled primary response whose tag is not the current value of the request counter
  leaves the result state as it is and starts no fallback.
\<close>

lemma stale_primary_response_discarded:
  "currentRequestId ctx \<noteq> searchRequestId s \<Longrightarrow>
   resultState (fst (performSearch_onResponse ctx (Fulfilled result) s)) = resultState s
   \<and> snd (performSearch_onResponse ctx (Fulfilled result) s) = None"
  by (simp add: performSearch_onResponse_def finishLoading_def resultState_def)

text \<open>
  C1 at a failing input. The search with tag 1 (brand filter "Nike") finds nothing and
  waits for its fallback request; the search with tag 2 is issued and its response shown
  (one product, total 1); then the fallback request of search 1 settles. The request
  counter is 2, yet the result of search 1 is applied: the list becomes the two popular
  products, the total 0, with the "Nike" message and the recommended flag. Likewise, in
  \<open>lateFailure\<close>, the failure of the request with tag 1 empties the list that the
  response with tag 2 filled.
\<close>

theorem C1_stale_fallback_overwrites:
  \<open>searchRequestId (widget (runSession (startSession searchingState) supersededSearch)) = 2
   \<and> map fst (awaitingFallback (runSession (startSession searchingState) supersededSearch)) = [1]
   \<and> filteredProducts (widget (runSession (startSession searchingState) supersededSearch))
       = [sampleProduct ''Q1'']
   \<and> totalProducts (widget (runSession (startSession searchingState) supersededSearch)) = 1
   \<and> filteredProducts (widget (runSession (startSession searchingState)
         (supersededSearch @ [FallbackSettles 1 (Fulfilled popularResponse)])))
       = [sampleProduct ''P1'', sampleProduct ''P2'']
   \<and> totalProducts (widget (runSession (startSession searchingState)
         (supersededSearch @ [FallbackSettles 1 (Fulfilled popularResponse)]))) = 0
   \<and> searchMessage (widget (runSession (startSession searchingState)
         (supersededSearch @ [FallbackSettles 1 (Fulfilled popularResponse)])))
       = Some ''No results found for brand "Nike". Showing popular products instead.''
   \<and> isShowingRecommended (widget (runSession (startSession searchingState)
         (supersededSearch @ [FallbackSettles 1 (Fulfilled popularResponse)]))) = True
   \<and> searchRequestId (widget (runSession (startSession searchingState) lateFailure)) = 2
   \<and> filteredProducts (widget (runSession (startSession searchingState) (butlast lateFailure)))
       = [sampleProduct ''Q1'']
   \<and> filteredProducts (widget (runSession (startSession searchingState) lateFailure)) = []\<close>
  by code_simp

theorem C1_stale_fallback_overwrites_witness:
  "filteredProducts (widget (runSession (startSession searchingState)
         (supersededSearch @ [FallbackSettles 1 (Fulfilled popularResponse)])))
   \<noteq> filteredProducts (widget (runSession (startSession searchingState) supersededSearch))"
  using C1_stale_fallback_overwrites by simp

section \<open>A failed search\<close>

text \<open>
  C6 (as amended). When the primary request is rejected with an abort error, only the
  loading flag changes. On any other error the result list is emptied and the loading
  flag cleared; \<open>hasMoreProducts\<close> is not written, so it keeps the value it had, which
  after the reset of \<open>performSearch\<close> is \<open>true\<close>.
\<close>

theorem C6_search_failure:
  "fst (performSearch_onResponse ctx (Rejected AbortError) s) = s\<lparr>isLoading := False\<rparr>
   \<and> snd (performSearch_onResponse ctx (Rejected AbortError) s) = None
   \<and> fst (performSearch_onResponse ctx (Rejected OtherError) s)
       = s\<lparr>filteredProducts := [], isLoading := False\<rparr>
   \<and> snd (performSearch_onResponse ctx (Rejected OtherError) s) = None
   \<and> hasMoreProducts (fst (performSearch_onResponse ctx (Rejected e) s)) = hasMoreProducts s
   \<and> (snd (performSearch url f query s0) = Some ctx \<longrightarrow>
        hasMoreProducts (fst (performSearch url f query s0)) = True
        \<and> filteredProducts (fst (performSearch_onResponse ctx (Rejected OtherError)
              (fst (performSearch url f query s0)))) = []
        \<and> hasMoreProducts (fst (performSearch_onResponse ctx (Rejected OtherError)
              (fst (performSearch url f query s0)))) = True)"
proof -
  have abort: "fst (performSearch_onResponse ctx (Rejected AbortError) s) = s\<lparr>isLoading := False\<rparr>"
    "snd (performSearch_onResponse ctx (Rejected AbortError) s) = None"
    by (simp_all add: performSearch_onResponse_def finishLoading_def)
  have other: "fst (performSearch_onResponse ctx (Rejected OtherError) s)
       = s\<lparr>filteredProducts := [], isLoading := False\<rparr>"
    "snd (performSearch_onResponse ctx (Rejected OtherError) s) = None"
    by (simp_all add: performSearch_onResponse_def finishLoading_def)
  have more: "hasMoreProducts (fst (performSearch_onResponse ctx' (Rejected e') s')) = hasMoreProducts s'"
    for ctx' s' e'
    by (simp add: performSearch_onResponse_def finishLoading_def)
  have issued: "snd (performSearch url f query s0) = Some ctx \<longrightarrow>
        hasMoreProducts (fst (performSearch url f query s0)) = True"
    by (auto simp: performSearch_def Let_def split: option.splits if_splits)
  have cleared: "filteredProducts (fst (performSearch_onResponse ctx (Rejected OtherError) s')) = []"
    for s'
    by (simp add: performSearch_onResponse_def finishLoading_def)
  from abort other more issued cleared show ?thesis by simp
qed

theorem C6_search_failure_witness:
  "snd (performSearch (Some shopUrl) (initialFilters 10000) ''shoes'' exhaustedState) = Some sampleContext
   \<and> filteredProducts (fst (performSearch_onResponse sampleContext (Rejected OtherError)
        (fst (performSearch (Some shopUrl) (initialFilters 10000) ''shoes'' exhaustedState)))) = []
   \<and> hasMoreProducts (fst (performSearch_onResponse sampleContext (Rejected OtherError)
        (fst (performSearch (Some shopUrl) (initialFilters 10000) ''shoes'' exhaustedState)))) = True"
proof -
  have issued: "snd (performSearch (Some shopUrl) (initialFilters 10000) ''shoes'' exhaustedState)
      = Some sampleContext"
    by code_simp
  with C6_search_failure [where ctx = sampleContext and url = "Some shopUrl"
      and f = "initialFilters 10000" and query = "''shoes''" and ?s0.0 = exhaustedState]
  show ?thesis by simp
qed

text \<open>
  The claim as stated fails: a search started when \<open>hasMoreProducts\<close> was false and
  whose request fails ends with an empty list and \<open>hasMoreProducts\<close> true.
\<close>

theorem C6_has_more_after_failure_counterexample:
  "hasMoreProducts exhaustedState = False
   \<and> filteredProducts (widget (runSession (startSession exhaustedState) failedSearch)) = []
   \<and> hasMoreProducts (widget (runSession (startSession exhaustedState) failedSearch)) = True"
  by code_simp

section \<open>The price range after a change of the maximum price\<close>




section \<open>Load more\<close>

lemma loadMore_guard:
  "isLoadingMore s \<or> \<not> hasMoreProducts s \<Longrightarrow> loadMoreProducts url dq f s = (s, None)"
  by (auto simp: loadMoreProducts_def split: option.splits)

lemma loadMore_issue:
  "\<not> isLoadingMore s \<Longrightarrow> hasMoreProducts s \<Longrightarrow> u \<noteq> [] \<Longrightarrow>
   loadMoreProducts (Some u) dq f s =
     (s\<lparr>isLoadingMore := True\<rparr>,
      Some \<lparr>loadMoreStoreUrl = u, loadMoreRequest = loadMoreParams dq u f (currentPage s)\<rparr>)"
  by (simp add: loadMoreProducts_def)

lemma loadMore_params:
  "paramPage (loadMoreParams dq u f p) = p + 1
   \<and> paramStoreUrl (loadMoreParams dq u f p) = u
   \<and> paramCategories (loadMoreParams dq u f p) = paramCategories (searchParams query u f m)
   \<and> paramColors (loadMoreParams dq u f p) = paramColors (searchParams query u f m)
   \<and> paramSizes (loadMoreParams dq u f p) = paramSizes (searchParams query u f m)
   \<and> paramBrands (loadMoreParams dq u f p) = paramBrands (searchParams query u f m)
   \<and> paramTags (loadMoreParams dq u f p) = paramTags (searchParams query u f m)
   \<and> paramStockStatus (loadMoreParams dq u f p) = paramStockStatus (searchParams query u f m)
   \<and> paramInsale (loadMoreParams dq u f p) = paramInsale (searchParams query u f m)
   \<and> paramFeatured (loadMoreParams dq u f p) = paramFeatured (searchParams query u f m)
   \<and> paramPriceRange (loadMoreParams dq u f p) = Some (priceRange f)"
  by (simp add: loadMoreParams_def searchParams_def)

lemma loadMore_append:
  "products r \<noteq> [] \<Longrightarrow>
   filteredProducts (loadMoreProducts_onResponse lctx (Fulfilled (IsSearchResponse r)) s)
     = filteredProducts s @ map (withStoreUrl (loadMoreStoreUrl lctx)) (products r)
   \<and> hasMoreProducts (loadMoreProducts_onResponse lctx (Fulfilled (IsSearchResponse r)) s)
     = (hasMore r = Some True)
   \<and> currentPage (loadMoreProducts_onResponse lctx (Fulfilled (IsSearchResponse r)) s)
     = currentPage s + 1
   \<and> isLoadingMore (loadMoreProducts_onResponse lctx (Fulfilled (IsSearchResponse r)) s) = False"
  by (auto simp: loadMoreProducts_onResponse_def Let_def split: option.splits)

lemma loadMore_empty:
  "products r = [] \<Longrightarrow>
   filteredProducts (loadMoreProducts_onResponse lctx (Fulfilled (IsSearchResponse r)) s)
     = filteredProducts s
   \<and> hasMoreProducts (loadMoreProducts_onResponse lctx (Fulfilled (IsSearchResponse r)) s) = False"
  by (simp add: loadMoreProducts_onResponse_def Let_def)

lemma loadMore_price_range:
  "paramPriceRange (loadMoreParams dq u f p) = Some (priceRange f)
   \<and> (fst (priceRange f) \<le> 0 \<and> m \<le> snd (priceRange f) \<longrightarrow>
        paramPriceRange (searchParams query u f m) = None)"
  by (simp add: loadMoreParams_def searchParams_def)

lemma loadMore_twelve_more:
  assumes "length (filteredProducts s) = 12" and "length (products r) = 12"
    and "hasMore r = Some False"
  shows "length (filteredProducts
      (loadMoreProducts_onResponse lctx (Fulfilled (IsSearchResponse r)) s)) = 24
    \<and> take 12 (filteredProducts
      (loadMoreProducts_onResponse lctx (Fulfilled (IsSearchResponse r)) s)) = filteredProducts s
    \<and> drop 12 (filteredProducts
      (loadMoreProducts_onResponse lctx (Fulfilled (IsSearchResponse r)) s))
      = map (withStoreUrl (loadMoreStoreUrl lctx)) (products r)
    \<and> hasMoreProducts (loadMoreProducts_onResponse lctx (Fulfilled (IsSearchResponse r)) s) = False"
proof -
  from assms(2) have "products r \<noteq> []" by auto
  from loadMore_append [OF this, of lctx s] assms show ?thesis by simp
qed

text \<open>
  C5 at a failing input. No filter is selected and the price range is the full range
  \<open>[0, 10000]\<close>. The search for "shoes" sends its first-page request without a price
  range (lines 1440-1444: "Only send priceRange if user has actually modified it"); its
  response, 12 products with \<open>hasMore: true\<close>, is shown. The load-more call that
  follows requests page 2 with the price range \<open>[0, 10000]\<close> (line 2222): the next page
  is not requested with the filters of the first. The rest of the scenario holds there:
  the 12 further products are appended after the 12 shown and \<open>hasMoreProducts\<close>
  becomes false.
\<close>

theorem C5_load_more_sends_price_range:
  "snd (performSearch (Some shopUrl) (initialFilters 10000) ''shoes'' searchingState)
     = Some sampleContext
   \<and> paramPage (request sampleContext) = 1
   \<and> paramPriceRange (request sampleContext) = None
   \<and> length (filteredProducts firstPageShown) = 12
   \<and> hasMoreProducts firstPageShown = True
   \<and> snd (loadMoreProducts (Some shopUrl) (Some ''shoes'') (initialFilters 10000) firstPageShown)
     = Some sampleLoadMore
   \<and> paramPage (loadMoreRequest sampleLoadMore) = 2
   \<and> paramPriceRange (loadMoreRequest sampleLoadMore) = Some (0, 10000)
   \<and> filteredProducts (loadMoreProducts_onResponse sampleLoadMore (Fulfilled secondPage)
        (fst (loadMoreProducts (Some shopUrl) (Some ''shoes'') (initialFilters 10000) firstPageShown)))
     = twelveProducts ''A'' @ twelveProducts ''B''
   \<and> hasMoreProducts (loadMoreProducts_onResponse sampleLoadMore (Fulfilled secondPage)
        (fst (loadMoreProducts (Some shopUrl) (Some ''shoes'') (initialFilters 10000) firstPageShown)))
     = False"
  by code_simp

theorem C5_load_more_sends_price_range_witness:
  "paramPriceRange (loadMoreRequest sampleLoadMore) \<noteq> paramPriceRange (request sampleContext)"
  using C5_load_more_sends_price_range by simp

section \<open>The zero-result fallback\<close>

lemma fallback_issued:
  assumes "currentRequestId ctx = searchRequestId s"
    and "pageTotal (responsePage result) = 0" and "hasActiveFilters (debouncedFilters ctx)"
  shows "snd (performSearch_onResponse ctx (Fulfilled result) s)
    = Some \<lparr>search = ctx, primaryPage = responsePage result,
            fallbackRequest = fallbackParams (ctxStoreUrl ctx)\<rparr>"
  using assms
  by (cases result)
    (simp_all add: performSearch_onResponse_def Let_def updateReactiveFacets_requestId)

lemma fallback_not_issued:
  assumes "pageTotal (responsePage result) \<noteq> 0 \<or> \<not> hasActiveFilters (debouncedFilters ctx)"
  shows "snd (performSearch_onResponse ctx (Fulfilled result) s) = None"
  using assms
  by (cases result)
    (auto simp: performSearch_onResponse_def Let_def updateReactiveFacets_requestId)

lemma fallbackParams_unfiltered:
  "paramQ (fallbackParams u) = [] \<and> paramPage (fallbackParams u) = 1
   \<and> paramCategories (fallbackParams u) = None \<and> paramBrands (fallbackParams u) = None
   \<and> paramColors (fallbackParams u) = None \<and> paramSizes (fallbackParams u) = None
   \<and> paramTags (fallbackParams u) = None \<and> paramStockStatus (fallbackParams u) = None
   \<and> paramPriceRange (fallbackParams u) = None \<and> paramInsale (fallbackParams u) = None
   \<and> paramFeatured (fallbackParams u) = None \<and> paramSort (fallbackParams u) = Some ''featured''"
  by (simp add: fallbackParams_def)

lemma fallback_applied:
  assumes "products fr \<noteq> []"
  shows "filteredProducts (performSearch_onFallback fb (Fulfilled (IsSearchResponse fr)) s)
      = map (withStoreUrl (ctxStoreUrl (search fb))) (products fr)
    \<and> totalProducts (performSearch_onFallback fb (Fulfilled (IsSearchResponse fr)) s) = 0
    \<and> hasMoreProducts (performSearch_onFallback fb (Fulfilled (IsSearchResponse fr)) s) = False
    \<and> isShowingRecommended (performSearch_onFallback fb (Fulfilled (IsSearchResponse fr)) s) = True
    \<and> searchMessage (performSearch_onFallback fb (Fulfilled (IsSearchResponse fr)) s)
      = Some (''No results found for '' @ filterDescription (debouncedFilters (search fb))
              @ ''. Showing popular products instead.'')"
  using assms
  by (simp add: performSearch_onFallback_def Let_def applyPage_def finishLoading_def
      fallbackMessage_def)

lemma fallback_failed:
  assumes "outcome = Rejected e \<or> outcome = Fulfilled Unexpected
    \<or> outcome = Fulfilled (ProductArray ps)
    \<or> (outcome = Fulfilled (IsSearchResponse fr) \<and> products fr = [])"
  shows "filteredProducts (performSearch_onFallback fb outcome s)
      = map (withStoreUrl (ctxStoreUrl (search fb))) (pageProducts (primaryPage fb))
    \<and> totalProducts (performSearch_onFallback fb outcome s) = pageTotal (primaryPage fb)
    \<and> hasMoreProducts (performSearch_onFallback fb outcome s) = pageHasMore (primaryPage fb)
    \<and> isShowingRecommended (performSearch_onFallback fb outcome s)
      = pageShowingRecommended (primaryPage fb)
    \<and> searchMessage (performSearch_onFallback fb outcome s) = pageMessage (primaryPage fb)"
  using assms
  by (auto simp: performSearch_onFallback_def Let_def applyPage_def finishLoading_def)

lemma appliedFilters_names:
  \<open>(length (categories f) = 1 \<longrightarrow> ''category "'' @ hd (categories f) @ ''"'' \<in> set (appliedFilters f))
   \<and> (length (categories f) > 1 \<longrightarrow>
        showNat (length (categories f)) @ '' categories'' \<in> set (appliedFilters f))
   \<and> (length (brands f) = 1 \<longrightarrow> ''brand "'' @ hd (brands f) @ ''"'' \<in> set (appliedFilters f))
   \<and> (length (brands f) > 1 \<longrightarrow>
        showNat (length (brands f)) @ '' brands'' \<in> set (appliedFilters f))
   \<and> (colors f \<noteq> [] \<longrightarrow> showNat (length (colors f)) @ '' color(s)'' \<in> set (appliedFilters f))
   \<and> (sizes f \<noteq> [] \<longrightarrow> showNat (length (sizes f)) @ '' size(s)'' \<in> set (appliedFilters f))
   \<and> (stockStatus f \<noteq> [] \<longrightarrow>
        joinWith '', '' (map (\<lambda>st. replaceFirstSpace (toLowerCase st)) (stockStatus f))
          \<in> set (appliedFilters f))
   \<and> (featuredProducts f \<noteq> [] \<longrightarrow> ''featured products'' \<in> set (appliedFilters f))
   \<and> (saleStatus f \<noteq> [] \<longrightarrow> ''on sale'' \<in> set (appliedFilters f))
   \<and> (appliedFilters f \<noteq> [] \<longrightarrow> filterDescription f = joinWith '', '' (appliedFilters f))\<close>
proof -
  have cat1: \<open>length (categories f) = 1 \<longrightarrow> ''category "'' @ hd (categories f) @ ''"'' \<in> set (appliedFilters f)\<close>
    by (auto simp: appliedFilters_def)
  have catn: \<open>length (categories f) > 1 \<longrightarrow>
        showNat (length (categories f)) @ '' categories'' \<in> set (appliedFilters f)\<close>
    by (auto simp: appliedFilters_def)
  have brand1: \<open>length (brands f) = 1 \<longrightarrow> ''brand "'' @ hd (brands f) @ ''"'' \<in> set (appliedFilters f)\<close>
    by (auto simp: appliedFilters_def)
  have brandn: \<open>length (brands f) > 1 \<longrightarrow>
        showNat (length (brands f)) @ '' brands'' \<in> set (appliedFilters f)\<close>
    by (auto simp: appliedFilters_def)
  have rest: \<open>(colors f \<noteq> [] \<longrightarrow> showNat (length (colors f)) @ '' color(s)'' \<in> set (appliedFilters f))
   \<and> (sizes f \<noteq> [] \<longrightarrow> showNat (length (sizes f)) @ '' size(s)'' \<in> set (appliedFilters f))
   \<and> (stockStatus f \<noteq> [] \<longrightarrow>
        joinWith '', '' (map (\<lambda>st. replaceFirstSpace (toLowerCase st)) (stockStatus f))
          \<in> set (appliedFilters f))
   \<and> (featuredProducts f \<noteq> [] \<longrightarrow> ''featured products'' \<in> set (appliedFilters f))
   \<and> (saleStatus f \<noteq> [] \<longrightarrow> ''on sale'' \<in> set (appliedFilters f))\<close>
    by (simp add: appliedFilters_def)
  have descr: \<open>appliedFilters f \<noteq> [] \<longrightarrow> filterDescription f = joinWith '', '' (appliedFilters f)\<close>
    by (simp add: filterDescription_def)
  from cat1 catn brand1 brandn rest descr show ?thesis by blast
qed

lemma nike_scenario:
  \<open>filteredProducts (widget (runSession (startSession searchingState) nikeSearch))
       = [sampleProduct ''P1'', sampleProduct ''P2'']
   \<and> totalProducts (widget (runSession (startSession searchingState) nikeSearch)) = 0
   \<and> hasMoreProducts (widget (runSession (startSession searchingState) nikeSearch)) = False
   \<and> isShowingRecommended (widget (runSession (startSession searchingState) nikeSearch)) = True
   \<and> searchMessage (widget (runSession (startSession searchingState) nikeSearch))
       = Some ''No results found for brand "Nike". Showing popular products instead.''\<close>
  by code_simp

text \<open>
  C3 (as amended). When the response of the current search has total 0 and at least one
  of the eight non-price filter dimensions is non-empty, \<open>fetchProducts\<close> sends the
  fallback request: no query, no filters, page 1, sorted "featured"; otherwise it sends
  none. If the fallback returns products, they become the displayed list (each with the
  store URL filled in when it has none), the total is 0, hasMore false, the recommended
  flag true, and the message is "No results found for D. Showing popular products
  instead.", where D joins, with ", ", one piece for each selected dimension among
  categories, brands, colors, sizes, stock status, featured and sale (the single value in
  quotes or the count for categories and brands, the count for colors and sizes, the
  lower-cased values for stock status, "featured products", "on sale"). If the fallback
  request fails, is not a search response or has no products, the state is the one the
  zero-result primary response gives. For the filters \<open>{brands: ["Nike"]}\<close>, the
  response \<open>{total: 0, products: []}\<close> and the fallback
  \<open>{products: [P1, P2], total: 5}\<close> the displayed state is P1, P2 with total 0, the
  recommended flag and the message naming brand "Nike".
\<close>

theorem C3_zero_result_fallback:
  \<open>(currentRequestId ctx = searchRequestId s \<and> pageTotal (responsePage result) = 0
      \<and> hasActiveFilters (debouncedFilters ctx) \<longrightarrow>
        snd (performSearch_onResponse ctx (Fulfilled result) s)
          = Some \<lparr>search = ctx, primaryPage = responsePage result,
                  fallbackRequest = fallbackParams (ctxStoreUrl ctx)\<rparr>)
   \<and> (pageTotal (responsePage result) \<noteq> 0 \<or> \<not> hasActiveFilters (debouncedFilters ctx) \<longrightarrow>
        snd (performSearch_onResponse ctx (Fulfilled result) s) = None)
   \<and> paramQ (fallbackParams u) = [] \<and> paramPage (fallbackParams u) = 1
   \<and> paramCategories (fallbackParams u) = None \<and> paramBrands (fallbackParams u) = None
   \<and> paramColors (fallbackParams u) = None \<and> paramSizes (fallbackParams u) = None
   \<and> paramTags (fallbackParams u) = None \<and> paramStockStatus (fallbackParams u) = None
   \<and> paramPriceRange (fallbackParams u) = None \<and> paramInsale (fallbackParams u) = None
   \<and> paramFeatured (fallbackParams u) = None \<and> paramSort (fallbackParams u) = Some ''featured''
   \<and> (products fr \<noteq> [] \<longrightarrow>
        filteredProducts (performSearch_onFallback fb (Fulfilled (IsSearchResponse fr)) s')
          = map (withStoreUrl (ctxStoreUrl (search fb))) (products fr)
        \<and> totalProducts (performSearch_onFallback fb (Fulfilled (IsSearchResponse fr)) s') = 0
        \<and> hasMoreProducts (performSearch_onFallback fb (Fulfilled (IsSearchResponse fr)) s') = False
        \<and> isShowingRecommended (performSearch_onFallback fb (Fulfilled (IsSearchResponse fr)) s')
          = True
        \<and> searchMessage (performSearch_onFallback fb (Fulfilled (IsSearchResponse fr)) s')
          = Some (''No results found for '' @ filterDescription (debouncedFilters (search fb))
                  @ ''. Showing popular products instead.''))
   \<and> (length (categories f) = 1 \<longrightarrow> ''category "'' @ hd (categories f) @ ''"'' \<in> set (appliedFilters f))
   \<and> (length (categories f) > 1 \<longrightarrow>
        showNat (length (categories f)) @ '' categories'' \<in> set (appliedFilters f))
   \<and> (length (brands f) = 1 \<longrightarrow> ''brand "'' @ hd (brands f) @ ''"'' \<in> set (appliedFilters f))
   \<and> (length (brands f) > 1 \<longrightarrow>
        showNat (length (brands f)) @ '' brands'' \<in> set (appliedFilters f))
   \<and> (colors f \<noteq> [] \<longrightarrow> showNat (length (colors f)) @ '' color(s)'' \<in> set (appliedFilters f))
   \<and> (sizes f \<noteq> [] \<longrightarrow> showNat (length (sizes f)) @ '' size(s)'' \<in> set (appliedFilters f))
   \<and> (stockStatus f \<noteq> [] \<longrightarrow>
        joinWith '', '' (map (\<lambda>st. replaceFirstSpace (toLowerCase st)) (stockStatus f))
          \<in> set (appliedFilters f))
   \<and> (featuredProducts f \<noteq> [] \<longrightarrow> ''featured products'' \<in> set (appliedFilters f))
   \<and> (saleStatus f \<noteq> [] \<longrightarrow> ''on sale'' \<in> set (appliedFilters f))
   \<and> (appliedFilters f \<noteq> [] \<longrightarrow> filterDescription f = joinWith '', '' (appliedFilters f))
   \<and> (outcome = Rejected e \<or> outcome = Fulfilled Unexpected
        \<or> outcome = Fulfilled (ProductArray ps)
        \<or> (outcome = Fulfilled (IsSearchResponse fr') \<and> products fr' = []) \<longrightarrow>
        filteredProducts (performSearch_onFallback fb outcome s')
          = map (withStoreUrl (ctxStoreUrl (search fb))) (pageProducts (primaryPage fb))
        \<and> totalProducts (performSearch_onFallback fb outcome s') = pageTotal (primaryPage fb)
        \<and> hasMoreProducts (performSearch_onFallback fb outcome s') = pageHasMore (primaryPage fb)
        \<and> isShowingRecommended (performSearch_onFallback fb outcome s')
          = pageShowingRecommended (primaryPage fb)
        \<and> searchMessage (performSearch_onFallback fb outcome s') = pageMessage (primaryPage fb))
   \<and> filteredProducts (widget (runSession (startSession searchingState) nikeSearch))
       = [sampleProduct ''P1'', sampleProduct ''P2'']
   \<and> totalProducts (widget (runSession (startSession searchingState) nikeSearch)) = 0
   \<and> hasMoreProducts (widget (runSession (startSession searchingState) nikeSearch)) = False
   \<and> isShowingRecommended (widget (runSession (startSession searchingState) nikeSearch)) = True
   \<and> searchMessage (widget (runSession (startSession searchingState) nikeSearch))
       = Some ''No results found for brand "Nike". Showing popular products instead.''\<close>
  using fallback_issued [of ctx s result] fallback_not_issued [of result ctx s]
    fallbackParams_unfiltered [of u] fallback_applied [of fr fb s']
    appliedFilters_names [of f] fallback_failed [of outcome e ps fr' fb s'] nike_scenario
  by blast

theorem C3_zero_result_fallback_witness:
  \<open>snd (performSearch_onResponse nikeContext (Fulfilled zeroResponse) nikeIssued) = Some nikeFallback
   \<and> filteredProducts (performSearch_onFallback nikeFallback (Fulfilled popularResponse) nikeIssued)
       = [sampleProduct ''P1'', sampleProduct ''P2'']
   \<and> totalProducts (performSearch_onFallback nikeFallback (Fulfilled popularResponse) nikeIssued) = 0
   \<and> searchMessage (performSearch_onFallback nikeFallback (Fulfilled popularResponse) nikeIssued)
       = Some ''No results found for brand "Nike". Showing popular products instead.''
   \<and> filteredProducts (performSearch_onFallback nikeFallback (Rejected OtherError) nikeIssued) = []
   \<and> totalProducts (performSearch_onFallback nikeFallback (Rejected OtherError) nikeIssued) = 0
   \<and> ''brand "Nike"'' \<in> set (appliedFilters nikeFilters)\<close>
proof -
  let ?fr = "\<lparr>products = [sampleProduct ''P1'', sampleProduct ''P2''], total = Some 5,
               hasMore = None, message = None, showingRecommended = None, facets = None\<rparr>"
  have popular: "popularResponse = IsSearchResponse ?fr"
    by (simp add: popularResponse_def)
  have current: "currentRequestId nikeContext = searchRequestId nikeIssued"
    "pageTotal (responsePage zeroResponse) = 0" "hasActiveFilters (debouncedFilters nikeContext)"
    by code_simp+
  have fb: "\<lparr>search = nikeContext, primaryPage = responsePage zeroResponse,
             fallbackRequest = fallbackParams (ctxStoreUrl nikeContext)\<rparr> = nikeFallback"
    by (simp add: nikeFallback_def nikeContext_def)
  have got: "products ?fr \<noteq> []" "length (brands nikeFilters) = 1"
    by (simp_all add: nikeFilters_def)
  have eval: \<open>map (withStoreUrl (ctxStoreUrl (search nikeFallback))) (products ?fr)
      = [sampleProduct ''P1'', sampleProduct ''P2'']\<close>
    \<open>''No results found for '' @ filterDescription (debouncedFilters (search nikeFallback))
        @ ''. Showing popular products instead.''
      = ''No results found for brand "Nike". Showing popular products instead.''\<close>
    \<open>map (withStoreUrl (ctxStoreUrl (search nikeFallback))) (pageProducts (primaryPage nikeFallback)) = []\<close>
    \<open>pageTotal (primaryPage nikeFallback) = 0\<close>
    \<open>''brand "'' @ hd (brands nikeFilters) @ ''"'' = ''brand "Nike"''\<close>
    by code_simp+
  from C3_zero_result_fallback [where ctx = nikeContext and s = nikeIssued and result = zeroResponse
      and fr = ?fr and fb = nikeFallback and s' = nikeIssued and f = nikeFilters
      and outcome = "Rejected OtherError" and e = OtherError]
    current fb got eval
  show ?thesis unfolding popular by simp
qed

text \<open>
  The claim as stated fails for the tag dimension: with the tag "summer" as the only
  filter the fallback is triggered, but its message names no filter.
\<close>

theorem C3_tags_not_named_counterexample:
  \<open>hasActiveFilters tagFilters
   \<and> appliedFilters tagFilters = []
   \<and> searchMessage (widget (runSession (startSession searchingState) tagSearch))
       = Some ''No results found for your filters. Showing popular products instead.''\<close>
  by code_simp

section \<open>Static and reactive facet counts\<close>

lemma updateReactiveFacets_static:
  "staticCounts (updateReactiveFacets r s) = staticCounts s
   \<and> globalStaticCounts (updateReactiveFacets r s) = globalStaticCounts s"
  by (simp add: updateReactiveFacets_def staticCounts_def globalStaticCounts_def Let_def
      split: option.splits)

lemma applyPage_static:
  "staticCounts (applyPage u pg s) = staticCounts s
   \<and> globalStaticCounts (applyPage u pg s) = globalStaticCounts s"
  by (simp add: applyPage_def staticCounts_def globalStaticCounts_def)

lemma finishLoading_static:
  "staticCounts (finishLoading s) = staticCounts s
   \<and> globalStaticCounts (finishLoading s) = globalStaticCounts s"
  by (simp add: finishLoading_def staticCounts_def globalStaticCounts_def)

lemma clearProducts_static:
  "staticCounts (s\<lparr>filteredProducts := ps\<rparr>) = staticCounts s
   \<and> globalStaticCounts (s\<lparr>filteredProducts := ps\<rparr>) = globalStaticCounts s"
  by (simp add: staticCounts_def globalStaticCounts_def)

lemma performSearch_static:
  "staticCounts (fst (performSearch url f query s)) = staticCounts s
   \<and> globalStaticCounts (fst (performSearch url f query s)) = globalStaticCounts s"
  by (simp add: performSearch_def staticCounts_def globalStaticCounts_def Let_def
      split: option.splits)

lemma performSearch_onResponse_static:
  "staticCounts (fst (performSearch_onResponse ctx outcome s)) = staticCounts s
   \<and> globalStaticCounts (fst (performSearch_onResponse ctx outcome s)) = globalStaticCounts s"
proof (cases outcome)
  case (Rejected e)
  then show ?thesis
    by (simp add: performSearch_onResponse_def finishLoading_static clearProducts_static)
next
  case (Fulfilled result)
  then show ?thesis
    by (cases result)
      (simp_all add: performSearch_onResponse_def Let_def finishLoading_static applyPage_static
        updateReactiveFacets_static)
qed

lemma performSearch_onFallback_static:
  "staticCounts (performSearch_onFallback fb outcome s) = staticCounts s
   \<and> globalStaticCounts (performSearch_onFallback fb outcome s) = globalStaticCounts s"
  by (simp add: performSearch_onFallback_def Let_def finishLoading_static applyPage_static)

lemma handleClearAll_static:
  "staticCounts (handleClearAll s) = globalStaticCounts s
   \<and> globalStaticCounts (handleClearAll s) = globalStaticCounts s"
  by (simp add: handleClearAll_def staticCounts_def globalStaticCounts_def)

lemma loadMore_static:
  "staticCounts (fst (loadMoreProducts url dq f s)) = staticCounts s
   \<and> staticCounts (loadMoreProducts_onResponse lctx outcome s) = staticCounts s"
  by (simp add: loadMoreProducts_def loadMoreProducts_onResponse_def staticCounts_def Let_def
      split: option.splits settled.splits)

lemma sessionStep_global:
  "globalStaticCounts (widget (sessionStep ses ev)) = globalStaticCounts (widget ses)"
proof (cases ev)
  case (Issue url f query)
  then show ?thesis
    using performSearch_static [of url f query "widget ses"]
    by (cases "performSearch url f query (widget ses)") (auto split: option.splits)
next
  case (PrimarySettles n outcome)
  show ?thesis
  proof (cases "map_of (awaitingPrimary ses) n")
    case None
    with PrimarySettles show ?thesis by simp
  next
    case (Some ctx)
    with PrimarySettles show ?thesis
      using performSearch_onResponse_static [of ctx outcome "widget ses"]
      by (cases "performSearch_onResponse ctx outcome (widget ses)") (auto split: option.splits)
  qed
next
  case (FallbackSettles n outcome)
  then show ?thesis
    by (simp add: performSearch_onFallback_static split: option.splits)
next
  case ClearAll
  then show ?thesis by (simp add: handleClearAll_static)
qed

lemma sessionStep_static:
  "ev \<noteq> ClearAll \<or> staticCounts (widget ses) = globalStaticCounts (widget ses) \<Longrightarrow>
   staticCounts (widget (sessionStep ses ev)) = staticCounts (widget ses)"
proof (cases ev)
  case (Issue url f query)
  then show ?thesis
    using performSearch_static [of url f query "widget ses"]
    by (cases "performSearch url f query (widget ses)") (auto split: option.splits)
next
  case (PrimarySettles n outcome)
  show ?thesis
  proof (cases "map_of (awaitingPrimary ses) n")
    case None
    with PrimarySettles show ?thesis by simp
  next
    case (Some ctx)
    with PrimarySettles show ?thesis
      using performSearch_onResponse_static [of ctx outcome "widget ses"]
      by (cases "performSearch_onResponse ctx outcome (widget ses)") (auto split: option.splits)
  qed
next
  case (FallbackSettles n outcome)
  then show ?thesis
    by (simp add: performSearch_onFallback_static split: option.splits)
next
  case ClearAll
  assume "ev \<noteq> ClearAll \<or> staticCounts (widget ses) = globalStaticCounts (widget ses)"
  with ClearAll show ?thesis by (simp add: handleClearAll_static)
qed

lemma runSession_global:
  "globalStaticCounts (widget (runSession ses events)) = globalStaticCounts (widget ses)"
  unfolding runSession_def
  by (induction events arbitrary: ses) (simp_all add: sessionStep_global)

lemma runSession_static_no_clear:
  "ClearAll \<notin> set events \<Longrightarrow>
   staticCounts (widget (runSession ses events)) = staticCounts (widget ses)"
  unfolding runSession_def
proof (induction events arbitrary: ses)
  case Nil
  show ?case by simp
next
  case (Cons ev events)
  then have "ev \<noteq> ClearAll" and "ClearAll \<notin> set events" by auto
  with Cons.IH [of "sessionStep ses ev"] sessionStep_static [of ev ses]
  show ?case by simp
qed

lemma runSession_static_invariant:
  "staticCounts (widget ses) = globalStaticCounts (widget ses) \<Longrightarrow>
   staticCounts (widget (runSession ses events)) = staticCounts (widget ses)"
  unfolding runSession_def
proof (induction events arbitrary: ses)
  case Nil
  show ?case by simp
next
  case (Cons ev events)
  have step: "staticCounts (widget (sessionStep ses ev)) = staticCounts (widget ses)"
    using Cons.prems sessionStep_static by blast
  then have "staticCounts (widget (sessionStep ses ev)) = globalStaticCounts (widget (sessionStep ses ev))"
    using Cons.prems by (simp add: sessionStep_global)
  from Cons.IH [OF this] step show ?case by simp
qed

lemma fetchGlobalFacets_static:
  "staticCounts s = globalStaticCounts s \<Longrightarrow>
   staticCounts (fetchGlobalFacets_onResponse t outcome s)
     = globalStaticCounts (fetchGlobalFacets_onResponse t outcome s)"
  by (auto simp: fetchGlobalFacets_onResponse_def applyGlobalFacets_def staticCounts_def
      globalStaticCounts_def Let_def split: settled.splits api_result.splits option.splits)

lemma reactive_counts:
  assumes "currentRequestId ctx = searchRequestId s" and "facets r = Some fs"
  shows "categoryCounts (fst (performSearch_onResponse ctx (Fulfilled (IsSearchResponse r)) s))
      = (if extractFacetBuckets (categoryFacet fs) = [] then categoryCounts s
         else bucketCounts (extractFacetBuckets (categoryFacet fs)))
    \<and> brandCounts (fst (performSearch_onResponse ctx (Fulfilled (IsSearchResponse r)) s))
      = (if extractFacetBuckets (brandFacet fs) = [] then brandCounts s
         else bucketCounts (extractFacetBuckets (brandFacet fs)))
    \<and> tagCounts (fst (performSearch_onResponse ctx (Fulfilled (IsSearchResponse r)) s))
      = (if extractFacetBuckets (tagFacet fs) = [] then tagCounts s
         else bucketCounts (extractFacetBuckets (tagFacet fs)))"
proof -
  have facet: "categoryCounts (updateReactiveFacets r s)
      = (if extractFacetBuckets (categoryFacet fs) = [] then categoryCounts s
         else bucketCounts (extractFacetBuckets (categoryFacet fs)))
    \<and> brandCounts (updateReactiveFacets r s)
      = (if extractFacetBuckets (brandFacet fs) = [] then brandCounts s
         else bucketCounts (extractFacetBuckets (brandFacet fs)))
    \<and> tagCounts (updateReactiveFacets r s)
      = (if extractFacetBuckets (tagFacet fs) = [] then tagCounts s
         else bucketCounts (extractFacetBuckets (tagFacet fs)))"
    using assms(2) by (simp add: updateReactiveFacets_def Let_def)
  have keep: "categoryCounts (fst (performSearch_onResponse ctx (Fulfilled (IsSearchResponse r)) s))
      = categoryCounts (updateReactiveFacets r s)
    \<and> brandCounts (fst (performSearch_onResponse ctx (Fulfilled (IsSearchResponse r)) s))
      = brandCounts (updateReactiveFacets r s)
    \<and> tagCounts (fst (performSearch_onResponse ctx (Fulfilled (IsSearchResponse r)) s))
      = tagCounts (updateReactiveFacets r s)"
    using assms(1)
    by (simp add: performSearch_onResponse_def Let_def updateReactiveFacets_requestId
        finishLoading_def applyPage_def)
  from facet keep show ?thesis by simp
qed

lemma reactive_counts_no_facets:
  assumes "facets r = None"
  shows "categoryCounts (fst (performSearch_onResponse ctx (Fulfilled (IsSearchResponse r)) s))
      = categoryCounts s
    \<and> brandCounts (fst (performSearch_onResponse ctx (Fulfilled (IsSearchResponse r)) s))
      = brandCounts s
    \<and> tagCounts (fst (performSearch_onResponse ctx (Fulfilled (IsSearchResponse r)) s))
      = tagCounts s"
proof -
  from assms have "updateReactiveFacets r s = s"
    by (simp add: updateReactiveFacets_def)
  then show ?thesis
    by (simp add: performSearch_onResponse_def Let_def finishLoading_def applyPage_def)
qed

text \<open>
  C4 (as amended). The displayed stock-status counts and the featured, not-featured, sale
  and not-sale counts are not written by searching: after any sequence of search calls,
  primary and fallback responses (fulfilled or rejected, current or superseded, in any
  order) they are what they were before, and \<open>loadMoreProducts\<close> leaves them too.
  \<open>handleClearAll\<close> sets them to the global copies, which the global fetch wrote
  together with them; so from a state in which displayed and global values agree (the
  initial state, and any state after the global fetch) they stay the same also across
  "clear all". The category, brand and tag counts are replaced by the counts of the
  buckets of a current successful response when the response has facets and the facet of
  that dimension has at least one bucket; otherwise they are left unchanged.
\<close>

theorem C4_static_and_reactive_counts:
  "(ClearAll \<notin> set events \<longrightarrow>
      staticCounts (widget (runSession ses events)) = staticCounts (widget ses))
   \<and> (staticCounts (widget ses) = globalStaticCounts (widget ses) \<longrightarrow>
      staticCounts (widget (runSession ses events)) = staticCounts (widget ses))
   \<and> staticCounts (handleClearAll s) = globalStaticCounts s
   \<and> staticCounts (fst (loadMoreProducts url dq f s)) = staticCounts s
   \<and> staticCounts (loadMoreProducts_onResponse lctx outcome s) = staticCounts s
   \<and> (staticCounts s = globalStaticCounts s \<longrightarrow>
      staticCounts (fetchGlobalFacets_onResponse t outcome s)
        = globalStaticCounts (fetchGlobalFacets_onResponse t outcome s))
   \<and> (currentRequestId ctx = searchRequestId s \<and> facets r = Some fs \<longrightarrow>
      categoryCounts (fst (performSearch_onResponse ctx (Fulfilled (IsSearchResponse r)) s))
        = (if extractFacetBuckets (categoryFacet fs) = [] then categoryCounts s
           else bucketCounts (extractFacetBuckets (categoryFacet fs)))
      \<and> brandCounts (fst (performSearch_onResponse ctx (Fulfilled (IsSearchResponse r)) s))
        = (if extractFacetBuckets (brandFacet fs) = [] then brandCounts s
           else bucketCounts (extractFacetBuckets (brandFacet fs)))
      \<and> tagCounts (fst (performSearch_onResponse ctx (Fulfilled (IsSearchResponse r)) s))
        = (if extractFacetBuckets (tagFacet fs) = [] then tagCounts s
           else bucketCounts (extractFacetBuckets (tagFacet fs))))
   \<and> (facets r = None \<longrightarrow>
      categoryCounts (fst (performSearch_onResponse ctx (Fulfilled (IsSearchResponse r)) s))
        = categoryCounts s
      \<and> brandCounts (fst (performSearch_onResponse ctx (Fulfilled (IsSearchResponse r)) s))
        = brandCounts s
      \<and> tagCounts (fst (performSearch_onResponse ctx (Fulfilled (IsSearchResponse r)) s))
        = tagCounts s)"
  using runSession_static_no_clear [of events ses] runSession_static_invariant [of ses events]
    handleClearAll_static [of s] loadMore_static [of url dq f s lctx outcome]
    fetchGlobalFacets_static [of s t outcome] reactive_counts [of ctx s r fs]
    reactive_counts_no_facets [of r ctx s]
  by blast

theorem C4_static_and_reactive_counts_witness:
  "ClearAll \<notin> set reactiveSearches
   \<and> featuredCount (widget (runSession (startSession afterGlobalFetch) reactiveSearches)) = 5
   \<and> notFeaturedCount (widget (runSession (startSession afterGlobalFetch) reactiveSearches)) = 45
   \<and> saleCount (widget (runSession (startSession afterGlobalFetch) reactiveSearches)) = 24
   \<and> notSaleCount (widget (runSession (startSession afterGlobalFetch) reactiveSearches)) = 26
   \<and> stockStatusCounts (widget (runSession (startSession afterGlobalFetch) reactiveSearches))
       ''stock.inStock'' = Some 40
   \<and> staticCounts (widget (runSession (startSession afterGlobalFetch) (reactiveSearches @ [ClearAll])))
       = staticCounts afterGlobalFetch"
proof -
  have nc: "ClearAll \<notin> set reactiveSearches"
    by (simp add: reactiveSearches_def)
  have w: "widget (startSession afterGlobalFetch) = afterGlobalFetch"
    by (simp add: startSession_def)
  have init: "staticCounts searchingState = globalStaticCounts searchingState"
    by (simp add: staticCounts_def globalStaticCounts_def searchingState_def initialState_def)
  from C4_static_and_reactive_counts [where s = searchingState and t = id
      and outcome = "Fulfilled globalResponse"] init
  have inv: "staticCounts afterGlobalFetch = globalStaticCounts afterGlobalFetch"
    by (simp add: afterGlobalFetch_def)
  from C4_static_and_reactive_counts [where ses = "startSession afterGlobalFetch"
      and events = reactiveSearches] nc w
  have same: "staticCounts (widget (runSession (startSession afterGlobalFetch) reactiveSearches))
      = staticCounts afterGlobalFetch"
    by simp
  from C4_static_and_reactive_counts [where ses = "startSession afterGlobalFetch"
      and events = "reactiveSearches @ [ClearAll]"] inv w
  have cleared: "staticCounts (widget (runSession (startSession afterGlobalFetch)
        (reactiveSearches @ [ClearAll]))) = staticCounts afterGlobalFetch"
    by simp
  have fetched: "featuredCount afterGlobalFetch = 5" "notFeaturedCount afterGlobalFetch = 45"
    "saleCount afterGlobalFetch = 24" "notSaleCount afterGlobalFetch = 26"
    "stockStatusCounts afterGlobalFetch ''stock.inStock'' = Some 40"
    by code_simp+
  from same fetched nc cleared show ?thesis
    by (simp add: staticCounts_def)
qed

text \<open>
  The claim as stated fails: after a response with the category bucket "Shoes": 7 and a
  later current response whose category facet has no bucket, the category counts still
  hold "Shoes": 7; they are not the counts of the last response.
\<close>

theorem C4_counts_not_replaced_counterexample:
  "categoryCounts (widget (runSession (startSession searchingState) reactiveSearches)) ''Shoes''
     = Some 7
   \<and> bucketCounts (extractFacetBuckets (FacetObject (Some []))) ''Shoes'' = None
   \<and> categoryCounts (widget (runSession (startSession searchingState) reactiveSearches))
     \<noteq> bucketCounts (extractFacetBuckets (FacetObject (Some [])))"
proof -
  have kept: "categoryCounts (widget (runSession (startSession searchingState) reactiveSearches))
      ''Shoes'' = Some 7"
    by code_simp
  have response: "bucketCounts (extractFacetBuckets (FacetObject (Some []))) ''Shoes'' = None"
    by code_simp
  from kept response show ?thesis
    by (metis option.distinct(1))
qed

end
